theory Spec2Isabelle
  imports Main
begin

section \<open>Python strings\<close>

text \<open>
  Python \<open>str\<close> values are modelled as \<^typ>\<open>string\<close>. Only ASCII text is covered:
  \<open>str.lower\<close> maps the letters \<open>A\<close> to \<open>Z\<close> and leaves every other character alone,
  and the digit class of a regular expression is \<open>0\<close> to \<open>9\<close>.
  A method \<open>s.m(a)\<close> is written \<open>m s a\<close>; a leading underscore of a source name is
  dropped, since an Isabelle name starts with a letter.
\<close>

definition lower_char :: "char \<Rightarrow> char" where
  "lower_char c =
     (case map_of (zip ''ABCDEFGHIJKLMNOPQRSTUVWXYZ'' ''abcdefghijklmnopqrstuvwxyz'') c of
        Some d \<Rightarrow> d
      | None \<Rightarrow> c)"

definition lower :: "string \<Rightarrow> string" where
  "lower s = map lower_char s"

definition startswith :: "string \<Rightarrow> string \<Rightarrow> bool" where
  "startswith s p = (take (length p) s = p)"

definition endswith :: "string \<Rightarrow> string \<Rightarrow> bool" where
  "endswith s p = (length p \<le> length s \<and> drop (length s - length p) s = p)"

text \<open>\<open>str_in sub s\<close> is Python's \<open>sub in s\<close>.\<close>

fun str_in :: "string \<Rightarrow> string \<Rightarrow> bool" where
  "str_in sub [] = (sub = [])"
| "str_in sub (c # cs) = (startswith (c # cs) sub \<or> str_in sub cs)"

section \<open>Data model of \<open>har_parser.py\<close>\<close>

text \<open>
  A header of the trace is a JSON object read only through \<open>header.get('name', '')\<close> and
  \<open>header.get('value', '')\<close>; an absent key is represented by the default the code
  supplies, the empty string.
\<close>

record header =
  h_name :: string
  h_value :: string

record RequestParam =
  p_name :: string
  param_type :: string
  p_example_value :: "string option"
  required :: bool
  p_description :: string

record AuthPattern =
  auth_type :: string
  header_name :: string
  example_value :: string
  location :: string

definition AUTH_HEADERS :: "(string \<times> string) list" where
  "AUTH_HEADERS =
     [(''authorization'', ''bearer''),
      (''x-api-key'', ''api_key''),
      (''api-key'', ''api_key''),
      (''x-auth-token'', ''custom_header''),
      (''x-access-token'', ''custom_header'')]"

section \<open>Auth pattern detection\<close>

text \<open>
  \<open>_extract_auth_patterns\<close> runs two loops over the headers. The first appends one pattern
  for every header whose lower-cased name is a key of \<open>AUTH_HEADERS\<close>; the second appends
  one cookie pattern at the first \<open>Cookie\<close> header whose value mentions a session word, and
  stops there.
\<close>

definition mask_value :: "string \<Rightarrow> string" where
  "mask_value v =
     (if startswith (lower v) ''bearer '' then ''Bearer <token>'' else ''<api_key>'')"

fun header_auth_patterns :: "header list \<Rightarrow> AuthPattern list" where
  "header_auth_patterns [] = []"
| "header_auth_patterns (h # hs) =
     (case map_of AUTH_HEADERS (lower (h_name h)) of
        None \<Rightarrow> header_auth_patterns hs
      | Some t \<Rightarrow>
          \<lparr>auth_type = t, header_name = h_name h,
           example_value = mask_value (h_value h), location = ''header''\<rparr>
          # header_auth_patterns hs)"

fun cookie_auth_patterns :: "header list \<Rightarrow> AuthPattern list" where
  "cookie_auth_patterns [] = []"
| "cookie_auth_patterns (h # hs) =
     (if lower (h_name h) = ''cookie'' \<and>
         list_ex (\<lambda>auth_cookie. str_in auth_cookie (lower (h_value h)))
           [''session'', ''auth'', ''token'', ''jwt'']
      then [\<lparr>auth_type = ''cookie'', header_name = ''Cookie'',
             example_value = ''<session_cookie>'', location = ''cookie''\<rparr>]
      else cookie_auth_patterns hs)"

definition extract_auth_patterns :: "header list \<Rightarrow> AuthPattern list" where
  "extract_auth_patterns headers =
     header_auth_patterns headers @ cookie_auth_patterns headers"

section \<open>JSON values and the library functions the parser calls\<close>

text \<open>
  A value returned by \<open>json.loads\<close>. An object keeps its keys in insertion order, as a
  Python \<open>dict\<close> does, and is an association list with distinct keys. A float is kept as
  the text that \<open>repr\<close> gives for it: the code passes floats through and, at most, asks
  whether one is zero.
\<close>

datatype json =
    JNull
  | JBool bool
  | JInt int
  | JFloat string
  | JStr string
  | JList "json list"
  | JObj "(string \<times> json) list"

text \<open>The parts of \<open>urllib.parse.urlparse(url)\<close> that the code reads.\<close>

record url_parts =
  u_scheme :: string
  u_netloc :: string
  u_path :: string
  u_query :: string

text \<open>
  The functions of Python's standard library that the parser calls are parameters of the
  model, so that a theorem stated for every \<open>L\<close> does not depend on how they work:
  \<^item> \<open>urlparse\<close> is \<open>urllib.parse.urlparse\<close>;
  \<^item> \<open>parse_qs\<close> is \<open>urllib.parse.parse_qs\<close>, whose result is a \<open>dict\<close> from a name to
    the list of its values, given here as its items in insertion order;
  \<^item> \<open>json_loads\<close> is \<open>json.loads\<close>, with \<open>None\<close> for \<open>JSONDecodeError\<close>;
  \<^item> \<open>str_hash\<close> stands for the hash of a string in the running interpreter, which
    CPython draws afresh for every process. The iteration order of a \<open>set\<close> of strings
    follows the hashes and not the insertion order; \<open>set_list\<close> below lists a set by
    increasing \<open>str_hash\<close>.
\<close>

record pylib =
  urlparse :: "string \<Rightarrow> url_parts"
  parse_qs :: "string \<Rightarrow> (string \<times> string list) list"
  json_loads :: "string \<Rightarrow> json option"
  str_hash :: "string \<Rightarrow> nat"

text \<open>
  \<open>set_list L xs\<close> is \<open>list(s)\<close> for the set \<open>s\<close> that received \<open>s.add(x)\<close> for every
  \<open>x\<close> of \<open>xs\<close> in turn.
\<close>

definition set_list :: "pylib \<Rightarrow> string list \<Rightarrow> string list" where
  "set_list L xs = sort_key (str_hash L) (remdups xs)"

text \<open>
  Assignment \<open>d[k] = v\<close> on a \<open>dict\<close> given by its items: an existing key keeps its place,
  a new key goes last.
\<close>

fun dict_set :: "'k \<Rightarrow> 'v \<Rightarrow> ('k \<times> 'v) list \<Rightarrow> ('k \<times> 'v) list" where
  "dict_set k v [] = [(k, v)]"
| "dict_set k v ((k', v') # kvs) =
     (if k = k' then (k, v) # kvs else (k', v') # dict_set k v kvs)"

section \<open>Trace records\<close>

text \<open>
  An entry of the trace, with the fields the code reads and the response headers of the
  data model. Every field holds what \<open>.get(key, default)\<close> returns: an absent \<open>method\<close>
  is \<open>GET\<close>, an absent \<open>status\<close> is \<open>200\<close>, an absent string is empty, an absent list is
  empty. \<open>postData\<close> is \<open>None\<close> when the key is absent or its object is empty. An entry of
  \<open>postData.params\<close> carries a name, as the archive format requires. The \<open>status\<close> is
  kept as the JSON value it is: the code stores it in the endpoint and never looks at it.
\<close>

record form_param =
  fp_name :: string
  fp_value :: string

record post_data =
  pd_mimeType :: string
  pd_text :: string
  pd_params :: "form_param list"

record request =
  r_url :: string
  r_method :: string
  r_headers :: "header list"
  postData :: "post_data option"

record response =
  status :: json
  resp_headers :: "header list"
  c_text :: string
  c_mimeType :: string

record entry =
  req :: request
  resp :: response

record APIEndpoint =
  e_method :: string
  e_path :: string
  e_base_url :: string
  full_url :: string
  query_params :: "RequestParam list"
  path_params :: "RequestParam list"
  e_headers :: "(string \<times> string) list"
  request_body :: json
  response_example :: json
  response_status :: json
  content_type :: string
  e_description :: string

record ServiceInfo =
  s_name :: string
  s_base_url :: string
  s_description :: string
  auth_patterns :: "AuthPattern list"
  endpoints :: "APIEndpoint list"

section \<open>Record classifier\<close>

definition STATIC_EXTENSIONS :: "string list" where
  "STATIC_EXTENSIONS =
     [''.js'', ''.css'', ''.png'', ''.jpg'', ''.jpeg'', ''.gif'', ''.svg'', ''.ico'',
      ''.woff'', ''.woff2'', ''.ttf'', ''.eot'', ''.map'', ''.webp'', ''.avif'']"

definition static_paths :: "string list" where
  "static_paths = [''/_next/static'', ''/static/'', ''/assets/'', ''/public/'']"

text \<open>Each loop of \<open>_is_static_resource\<close> returns \<open>True\<close> at the first hit.\<close>

definition is_static_resource :: "pylib \<Rightarrow> string \<Rightarrow> bool" where
  "is_static_resource L url =
     (let path = lower (u_path (urlparse L url)) in
      if list_ex (\<lambda>ext. endswith path ext) STATIC_EXTENSIONS then True
      else if list_ex (\<lambda>static_path. str_in static_path path) static_paths then True
      else False)"

text \<open>
  One header loop of \<open>_is_api_call\<close>: \<open>True\<close> at the first header of the given lower-case
  name whose lower-cased value contains \<open>application/json\<close>.
\<close>

fun header_has_json :: "string \<Rightarrow> header list \<Rightarrow> bool" where
  "header_has_json n [] = False"
| "header_has_json n (h # hs) =
     (if lower (h_name h) = n \<and> str_in ''application/json'' (lower (h_value h)) then True
      else header_has_json n hs)"

definition is_api_call :: "pylib \<Rightarrow> string \<Rightarrow> header list \<Rightarrow> bool" where
  "is_api_call L url hs =
     (let path = lower (u_path (urlparse L url)) in
      if str_in ''/api/'' path \<or> str_in ''/v1/'' path \<or> str_in ''/v2/'' path then True
      else if header_has_json ''accept'' hs then True
      else if header_has_json ''content-type'' hs then True
      else False)"

text \<open>
  The two guards at the head of the loop of \<open>parse\<close>: an entry is processed when it is not
  a static resource and is an API call, judged on the request's URL and headers.
\<close>

definition relevant :: "pylib \<Rightarrow> entry \<Rightarrow> bool" where
  "relevant L e =
     (if is_static_resource L (r_url (req e)) then False
      else if \<not> is_api_call L (r_url (req e)) (r_headers (req e)) then False
      else True)"

section \<open>Path normalizer\<close>

definition is_hex :: "char \<Rightarrow> bool" where
  "is_hex c = (c \<in> set ''0123456789abcdefABCDEF'')"

definition is_digit :: "char \<Rightarrow> bool" where
  "is_digit c = (c \<in> set ''0123456789'')"

definition uuid_text :: "string \<Rightarrow> bool" where
  "uuid_text s =
     (length s = 36 \<and>
      list_all is_hex (take 8 s) \<and> take 1 (drop 8 s) = ''-'' \<and>
      list_all is_hex (take 4 (drop 9 s)) \<and> take 1 (drop 13 s) = ''-'' \<and>
      list_all is_hex (take 4 (drop 14 s)) \<and> take 1 (drop 18 s) = ''-'' \<and>
      list_all is_hex (take 4 (drop 19 s)) \<and> take 1 (drop 23 s) = ''-'' \<and>
      list_all is_hex (drop 24 s))"

function uuid_finditer :: "string \<Rightarrow> string list" where
  "uuid_finditer [] = []"
| "uuid_finditer (c # cs) =
     (if c = CHR ''/'' \<and> uuid_text (take 36 cs)
      then take 36 cs # uuid_finditer (drop 36 cs)
      else uuid_finditer cs)"
  by pat_completeness auto
termination
  by (relation "measure length") auto

function replace :: "string \<Rightarrow> string \<Rightarrow> string \<Rightarrow> string" where
  "replace s old new =
     (if s = [] \<or> old = [] then s
      else if startswith s old then new @ replace (drop (length old) s) old new
      else hd s # replace (tl s) old new)"
  by pat_completeness auto
termination
  by (relation "measure (\<lambda>(s, old, new). length s)") auto

declare replace.simps [simp del]

function str_nat :: "nat \<Rightarrow> string" where
  "str_nat n =
     (if n < 10 then [''0123456789'' ! n]
      else str_nat (n div 10) @ [''0123456789'' ! (n mod 10)])"
  by pat_completeness auto
termination
  by (relation "measure id") auto

declare str_nat.simps [simp del]

definition path_param :: "string \<Rightarrow> string \<Rightarrow> string \<Rightarrow> RequestParam" where
  "path_param n v d =
     \<lparr>p_name = n, param_type = ''path'', p_example_value = Some v, required = True,
      p_description = d\<rparr>"

fun uuid_loop ::
  "nat \<Rightarrow> string list \<Rightarrow> string \<times> RequestParam list \<Rightarrow> string \<times> RequestParam list" where
  "uuid_loop i [] acc = acc"
| "uuid_loop i (g # gs) (normalized_path, params) =
     (let param_name = (if i > 0 then ''uuid_'' @ str_nat i else ''id'') in
      uuid_loop (Suc i) gs
        (replace normalized_path (CHR ''/'' # g) (''/{'' @ param_name @ ''}''),
         params @ [path_param param_name g ''UUID identifier'']))"

function numeric_finditer :: "nat \<Rightarrow> string \<Rightarrow> (nat \<times> nat \<times> string) list" where
  "numeric_finditer pos [] = []"
| "numeric_finditer pos (c # cs) =
     (let digits = takeWhile is_digit cs; rest = dropWhile is_digit cs in
      if c = CHR ''/'' \<and> digits \<noteq> [] \<and>
         (case rest of [] \<Rightarrow> True | r # rs \<Rightarrow> r = CHR ''/'' \<or> (r = CHR 0x0A \<and> rs = []))
      then (pos, pos + 1 + length digits, digits)
           # numeric_finditer (pos + 1 + length digits) rest
      else numeric_finditer (pos + 1) cs)"
  by pat_completeness auto
termination
  by (relation "measure (\<lambda>(pos, s). length s)")
     (auto simp: length_dropWhile_le less_Suc_eq_le)

fun numeric_loop ::
  "nat \<Rightarrow> (nat \<times> nat \<times> string) list \<Rightarrow> string \<times> RequestParam list \<Rightarrow>
   string \<times> RequestParam list" where
  "numeric_loop i [] acc = acc"
| "numeric_loop i ((m_start, m_end, g) # ms) (normalized_path, params) =
     (let param_name = (if i > 0 then ''id_'' @ str_nat i else ''id'') in
      if \<not> str_in ''{'' (CHR ''/'' # g)
      then numeric_loop (Suc i) ms
             (take m_start normalized_path @ ''/{'' @ param_name @ ''}'' @ drop m_end normalized_path,
              params @ [path_param param_name g ''Numeric identifier''])
      else numeric_loop (Suc i) ms (normalized_path, params))"

definition extract_path_params :: "string \<Rightarrow> string \<times> RequestParam list" where
  "extract_path_params path =
     (let (normalized_path, params) = uuid_loop 0 (uuid_finditer path) (path, [])
      in numeric_loop 0 (numeric_finditer 0 normalized_path) (normalized_path, params))"




section \<open>Query parameters, bodies and headers\<close>

definition extract_query_params :: "pylib \<Rightarrow> string \<Rightarrow> RequestParam list" where
  "extract_query_params L url =
     (let parsed = urlparse L url; query_dict = parse_qs L (u_query parsed) in
      map (\<lambda>(n, vs).
             \<lparr>p_name = n, param_type = ''query'',
              p_example_value = (case vs of [] \<Rightarrow> None | v # _ \<Rightarrow> Some v),
              required = False, p_description = ''Query parameter: '' @ n\<rparr>)
          (filter (\<lambda>(n, vs).
                     \<not> (startswith n ''_'' \<or> n \<in> set [''rsc'', ''callback'', ''jsonp'']))
             query_dict))"

definition extract_request_body :: "pylib \<Rightarrow> request \<Rightarrow> json" where
  "extract_request_body L request =
     (case postData request of
        None \<Rightarrow> JNull
      | Some post_data \<Rightarrow>
          (let mime_type = pd_mimeType post_data; text = pd_text post_data in
           if text = [] then JNull
           else if str_in ''json'' mime_type then
             (case json_loads L text of
                Some j \<Rightarrow> j
              | None \<Rightarrow> JObj [(''raw'', JStr text)])
           else if str_in ''form'' mime_type then
             JObj (fold (\<lambda>p d. dict_set (fp_name p) (JStr (fp_value p)) d)
                     (pd_params post_data) [])
           else JObj [(''raw'', JStr text)]))"

function truncate_response :: "(string \<times> json) list \<Rightarrow> int \<Rightarrow> (string \<times> json) list" where
  "truncate_response data max_depth =
     (if max_depth \<le> 0 then [(''...'', JStr ''truncated'')]
      else map (\<lambda>(key, v).
                  (key,
                   case v of
                     JObj d \<Rightarrow> JObj (truncate_response d (max_depth - 1))
                   | JList xs \<Rightarrow> (if length xs > 2 then JList (take 2 xs) else JList xs)
                   | _ \<Rightarrow> v))
             (take 10 data))"
  by pat_completeness auto
termination
  by (relation "measure (\<lambda>(d, n). nat n)") auto

declare truncate_response.simps [simp del]

definition extract_response_example :: "pylib \<Rightarrow> response \<Rightarrow> json" where
  "extract_response_example L response =
     (let text = c_text response; mime_type = c_mimeType response in
      if text = [] then JNull
      else if str_in ''json'' mime_type then
        (case json_loads L text of
           None \<Rightarrow> JNull
         | Some data \<Rightarrow>
             (case data of
                JObj d \<Rightarrow> JObj (truncate_response d 3)
              | JList xs \<Rightarrow> (if length xs > 2 then JList (take 2 xs) else data)
              | _ \<Rightarrow> data))
      else JNull)"

definition SKIP_HEADERS :: "string list" where
  "SKIP_HEADERS =
     [''accept-encoding'', ''accept-language'', ''cache-control'', ''pragma'',
      ''sec-ch-ua'', ''sec-ch-ua-mobile'', ''sec-ch-ua-platform'',
      ''sec-fetch-dest'', ''sec-fetch-mode'', ''sec-fetch-site'', ''sec-gpc'',
      ''user-agent'', ''upgrade-insecure-requests'', ''connection'',
      '':method'', '':path'', '':scheme'', '':authority'', '':status'',
      ''priority'', ''dnt'', ''te'', ''if-none-match'', ''if-modified-since'']"

definition normalize_headers :: "header list \<Rightarrow> (string \<times> string) list" where
  "normalize_headers hs =
     fold (\<lambda>h result.
             if lower (h_name h) \<notin> set SKIP_HEADERS
             then dict_set (h_name h) (h_value h) result
             else result)
       hs []"

section \<open>Service identity\<close>

text \<open>\<open>s.strip(chars)\<close>.\<close>

definition strip :: "string \<Rightarrow> string \<Rightarrow> string" where
  "strip s chars =
     rev (dropWhile (\<lambda>c. c \<in> set chars) (rev (dropWhile (\<lambda>c. c \<in> set chars) s)))"

text \<open>
  The three substitutions of \<open>_host_to_name\<close>. The first pattern is anchored at the
  start, the second at \<open>$\<close>, which holds at the end of the string and before a newline
  that ends it; the third replaces every maximal run of characters outside \<open>a-z0-9\<close>.
\<close>

definition sub_prefix :: "string \<Rightarrow> string" where
  "sub_prefix n =
     (if startswith n ''www.'' then drop 4 n
      else if startswith n ''api.'' then drop 4 n
      else if startswith n ''blog.'' then drop 5 n
      else n)"

definition tlds :: "string list" where
  "tlds = [''com'', ''org'', ''net'', ''io'', ''ai'', ''dev'']"

fun sub_tld :: "string \<Rightarrow> string" where
  "sub_tld [] = []"
| "sub_tld (c # cs) =
     (if c = CHR ''.'' \<and> list_ex (\<lambda>t. cs = t) tlds then []
      else if c = CHR ''.'' \<and> list_ex (\<lambda>t. cs = t @ [CHR 0x0A]) tlds then [CHR 0x0A]
      else c # sub_tld cs)"

definition is_lower_alnum :: "char \<Rightarrow> bool" where
  "is_lower_alnum c = (c \<in> set ''abcdefghijklmnopqrstuvwxyz0123456789'')"

text \<open>
  \<open>sub_runs keep c s\<close> is \<open>re.sub(r'[^K]+', c, s)\<close> for the character class \<open>K\<close> of
  \<open>keep\<close>: every maximal run of characters outside the class becomes one \<open>c\<close>.
\<close>

function sub_runs :: "(char \<Rightarrow> bool) \<Rightarrow> char \<Rightarrow> string \<Rightarrow> string" where
  "sub_runs keep r [] = []"
| "sub_runs keep r (c # cs) =
     (if keep c then c # sub_runs keep r cs
      else r # sub_runs keep r (dropWhile (\<lambda>c. \<not> keep c) cs))"
  by pat_completeness auto
termination
  by (relation "measure (\<lambda>(keep, r, s). length s)")
     (auto simp: length_dropWhile_le less_Suc_eq_le)

definition host_to_name :: "string \<Rightarrow> string" where
  "host_to_name host = strip (sub_runs is_lower_alnum CHR ''-'' (sub_tld (sub_prefix (lower host)))) ''-''"

definition entry_hosts :: "pylib \<Rightarrow> entry list \<Rightarrow> string list" where
  "entry_hosts L entries =
     concat (map (\<lambda>e. let url = r_url (req e) in
                    if url \<noteq> [] \<and> \<not> is_static_resource L url
                    then (let parsed = urlparse L url in
                          if u_netloc parsed \<noteq> [] then [u_netloc parsed] else [])
                    else [])
               entries)"

definition extract_service_name :: "pylib \<Rightarrow> entry list \<Rightarrow> string" where
  "extract_service_name L entries =
     (let hosts = set_list L (entry_hosts L entries) in
      if hosts = [] then ''unknown''
      else (case filter (\<lambda>host. str_in ''api'' (lower host)) hosts of
              host # _ \<Rightarrow> host_to_name host
            | [] \<Rightarrow> host_to_name (hd hosts)))"

section \<open>The parse loop\<close>

record parse_state =
  endpoints_map :: "(string \<times> APIEndpoint) list"
  all_auth_patterns :: "AuthPattern list"
  base_urls :: "string list"

definition merge_query_params :: "APIEndpoint \<Rightarrow> RequestParam list \<Rightarrow> APIEndpoint" where
  "merge_query_params existing qps =
     (let existing_param_names = set (map p_name (query_params existing)) in
      existing\<lparr>query_params :=
        query_params existing @ filter (\<lambda>param. p_name param \<notin> existing_param_names) qps\<rparr>)"

definition process_entry :: "pylib \<Rightarrow> parse_state \<Rightarrow> entry \<Rightarrow> parse_state" where
  "process_entry L st e =
     (let request = req e; response = resp e;
          url = r_url request; method = r_method request; hs = r_headers request in
      if is_static_resource L url then st
      else if \<not> is_api_call L url hs then st
      else
        (let parsed = urlparse L url;
             base_url = u_scheme parsed @ ''://'' @ u_netloc parsed;
             (normalized_path, pps) = extract_path_params (u_path parsed);
             endpoint_key = method @ '':'' @ base_url @ normalized_path;
             qps = extract_query_params L url;
             normalized_headers = normalize_headers hs;
             endpoint =
               \<lparr>e_method = method, e_path = normalized_path, e_base_url = base_url,
                full_url = url, query_params = qps, path_params = pps,
                e_headers = normalized_headers,
                request_body = extract_request_body L request,
                response_example = extract_response_example L response,
                response_status = status response,
                content_type =
                  (case map_of normalized_headers ''Content-Type'' of
                     Some v \<Rightarrow> v
                   | None \<Rightarrow> ''application/json''),
                e_description = []\<rparr>
         in \<lparr>endpoints_map =
               (case map_of (endpoints_map st) endpoint_key of
                  Some existing \<Rightarrow>
                    dict_set endpoint_key (merge_query_params existing qps) (endpoints_map st)
                | None \<Rightarrow> dict_set endpoint_key endpoint (endpoints_map st)),
             all_auth_patterns = all_auth_patterns st @ extract_auth_patterns hs,
             base_urls = base_urls st @ [base_url]\<rparr>))"

text \<open>One round of the loop that removes repeated auth patterns, and the loop.\<close>

definition remember_auth ::
  "AuthPattern \<Rightarrow> (string \<times> AuthPattern) list \<Rightarrow> (string \<times> AuthPattern) list" where
  "remember_auth pattern u =
     (let key = auth_type pattern @ '':'' @ header_name pattern in
      if map_of u key = None then dict_set key pattern u else u)"

definition unique_auth :: "AuthPattern list \<Rightarrow> (string \<times> AuthPattern) list" where
  "unique_auth ps = fold remember_auth ps []"

definition parse_loop :: "pylib \<Rightarrow> entry list \<Rightarrow> parse_state" where
  "parse_loop L entries =
     foldl (process_entry L)
       \<lparr>endpoints_map = [], all_auth_patterns = [], base_urls = []\<rparr> entries"

definition parse :: "pylib \<Rightarrow> entry list \<Rightarrow> ServiceInfo" where
  "parse L entries =
     (let st = parse_loop L entries;
          service_name = extract_service_name L entries;
          primary_base_url =
            (if base_urls st \<noteq> [] then hd (set_list L (base_urls st)) else [])
      in \<lparr>s_name = service_name, s_base_url = primary_base_url,
          s_description = ''API service for '' @ service_name,
          auth_patterns = map snd (unique_auth (all_auth_patterns st)),
          endpoints = map snd (endpoints_map st)\<rparr>)"

section \<open>The code generator\<close>

text \<open>
  \<open>mcp_generator.py\<close> renders a \<open>ServiceInfo\<close> into seven text files. Its templates are
  given line by line: \<open>join_nl\<close> puts a newline between the lines, and a value inserted
  into a line stands where the template has its placeholder. \<open>json.dumps\<close> and the clock
  are parameters.
\<close>

record genlib =
  json_dumps :: "nat option \<Rightarrow> json \<Rightarrow> string"
  now_isoformat :: string
  abspath :: "string \<Rightarrow> string"

text \<open>\<open>join sep xs\<close> is \<open>sep.join(xs)\<close>.\<close>

fun join :: "string \<Rightarrow> string list \<Rightarrow> string" where
  "join sep [] = []"
| "join sep [x] = x"
| "join sep (x # y # ys) = x @ sep @ join sep (y # ys)"

definition join_nl :: "string list \<Rightarrow> string" where
  "join_nl ls = join [CHR 0x0A] ls"

definition upper_char :: "char \<Rightarrow> char" where
  "upper_char c =
     (case map_of (zip ''abcdefghijklmnopqrstuvwxyz'' ''ABCDEFGHIJKLMNOPQRSTUVWXYZ'') c of
        Some d \<Rightarrow> d
      | None \<Rightarrow> c)"

definition upper :: "string \<Rightarrow> string" where
  "upper s = map upper_char s"

subsection \<open>Names\<close>

definition is_alnum :: "char \<Rightarrow> bool" where
  "is_alnum c =
     (c \<in> set ''abcdefghijklmnopqrstuvwxyzABCDEFGHIJKLMNOPQRSTUVWXYZ0123456789'')"

definition is_word :: "char \<Rightarrow> bool" where
  "is_word c = (is_alnum c \<or> c = CHR ''_'')"

text \<open>
  The substitution of \<open>tool_name\<close> that drops the braces of a placeholder: a brace pair
  around one or more word characters is replaced by what it encloses.
\<close>

function sub_braces :: "string \<Rightarrow> string" where
  "sub_braces [] = []"
| "sub_braces (c # cs) =
     (let w = takeWhile is_word cs; rest = dropWhile is_word cs in
      if c = CHR ''{'' \<and> w \<noteq> [] \<and> (case rest of [] \<Rightarrow> False | r # _ \<Rightarrow> r = CHR ''}'')
      then w @ sub_braces (tl rest)
      else c # sub_braces cs)"
  by pat_completeness auto
termination
  by (relation "measure length")
     (auto simp: length_dropWhile_le less_Suc_eq_le intro: le_trans [OF diff_le_self])

text \<open>The property \<open>APIEndpoint.tool_name\<close>.\<close>

definition method_prefix :: "string \<Rightarrow> string" where
  "method_prefix m =
     (case map_of [(''GET'', ''get''), (''POST'', ''create''), (''PUT'', ''update''),
                   (''PATCH'', ''patch''), (''DELETE'', ''delete'')] (upper m) of
        Some p \<Rightarrow> p
      | None \<Rightarrow> lower m)"

definition tool_name :: "APIEndpoint \<Rightarrow> string" where
  "tool_name ep =
     (let path = strip (e_path ep) ''/'';
          path = sub_braces path;
          path = sub_runs is_alnum CHR ''_'' path;
          path = lower (strip path ''_'')
      in if path \<noteq> [] then method_prefix (e_method ep) @ ''_'' @ path
         else method_prefix (e_method ep))"

definition server_name :: "ServiceInfo \<Rightarrow> string" where
  "server_name si = ''iblai-'' @ (s_name si)"

definition python_safe_name :: "string \<Rightarrow> string" where
  "python_safe_name n =
     (let safe = map (\<lambda>c. if is_word c then c else CHR ''_'') n;
          safe = (if safe \<noteq> [] \<and> is_digit (hd safe) then CHR ''_'' # safe else safe)
      in lower safe)"

definition env_prefix_of :: "ServiceInfo \<Rightarrow> string" where
  "env_prefix_of si = replace (replace (upper (s_name si)) ''-'' ''_'') ''.'' ''_''"

definition env_var_name :: "ServiceInfo \<Rightarrow> string \<Rightarrow> string" where
  "env_var_name si suffix = (let prefix = env_prefix_of si in prefix @ ''_'' @ suffix)"

subsection \<open>Schemas\<close>

text \<open>\<open>not v\<close> for a JSON value, and \<open>d.get(k)\<close> and \<open>d[k] = v\<close> on one that is a \<open>dict\<close>.\<close>

fun falsy :: "json \<Rightarrow> bool" where
  "falsy JNull = True"
| "falsy (JBool b) = (\<not> b)"
| "falsy (JInt i) = (i = 0)"
| "falsy (JFloat s) = (s = ''0.0'' \<or> s = ''-0.0'')"
| "falsy (JStr s) = (s = [])"
| "falsy (JList xs) = (xs = [])"
| "falsy (JObj kvs) = (kvs = [])"

fun jget :: "json \<Rightarrow> string \<Rightarrow> json option" where
  "jget (JObj kvs) k = map_of kvs k"
| "jget v k = None"

fun jset :: "json \<Rightarrow> string \<Rightarrow> json \<Rightarrow> json" where
  "jset (JObj kvs) k v = JObj (dict_set k v kvs)"
| "jset j k v = j"

text \<open>
  An example value of a parameter is a string or absent, so the type that
  \<open>_generate_param_schema\<close> gives a property stays \<open>string\<close>.
\<close>

definition param_prop :: "RequestParam \<Rightarrow> json" where
  \<open>param_prop param =
     JObj [(''type'', JStr ''string''),
           (''description'',
            JStr (if p_description param \<noteq> [] then p_description param
                  else ''Parameter: '' @ (p_name param)))]\<close>

definition generate_param_schema :: "RequestParam list \<Rightarrow> json" where
  "generate_param_schema params =
     (if params = [] then JObj []
      else
        (let properties = fold (\<lambda>param d. dict_set (p_name param) (param_prop param) d) params [];
             req_names = map p_name (filter required params)
         in JObj ([(''type'', JStr ''object''), (''properties'', JObj properties)]
                  @ (if req_names \<noteq> [] then [(''required'', JList (map JStr req_names))]
                     else []))))"

fun infer_schema :: "json \<Rightarrow> json" where
  "infer_schema (JObj kvs) =
     JObj [(''type'', JStr ''object''),
           (''properties'', JObj (map (\<lambda>kv. (fst kv, infer_schema (snd kv))) kvs))]"
| "infer_schema (JList []) = JObj [(''type'', JStr ''array''), (''items'', JObj [])]"
| "infer_schema (JList (x # xs)) =
     JObj [(''type'', JStr ''array''), (''items'', infer_schema x)]"
| "infer_schema (JBool b) = JObj [(''type'', JStr ''boolean'')]"
| "infer_schema (JInt i) = JObj [(''type'', JStr ''integer'')]"
| "infer_schema (JFloat s) = JObj [(''type'', JStr ''number'')]"
| "infer_schema v = JObj [(''type'', JStr ''string'')]"

definition generate_body_schema :: "json \<Rightarrow> json" where
  "generate_body_schema body = (if falsy body then JObj [] else infer_schema body)"

text \<open>
  The schema that \<open>_generate_tool_code\<close> and \<open>_generate_tools_list_items\<close> both build: the
  parameter schema, with a \<open>body\<close> property when a request body with properties was seen.
\<close>

definition input_schema :: "APIEndpoint \<Rightarrow> json" where
  "input_schema ep =
     (let all_params = path_params ep @ query_params ep;
          schema = generate_param_schema all_params
      in if \<not> falsy (request_body ep) then
           (let body_schema = generate_body_schema (request_body ep) in
            case jget body_schema ''properties'' of
              None \<Rightarrow> schema
            | Some props \<Rightarrow>
                if falsy props then schema
                else
                  (let schema = (case jget schema ''properties'' of
                                   None \<Rightarrow> jset schema ''properties'' (JObj [])
                                 | Some _ \<Rightarrow> schema);
                       properties = (case jget schema ''properties'' of
                                       Some p \<Rightarrow> p
                                     | None \<Rightarrow> JObj [])
                   in jset schema ''properties''
                        (jset properties ''body''
                           (JObj [(''type'', JStr ''object''),
                                  (''description'', JStr ''Request body''),
                                  (''properties'', props)]))))
         else schema)"

subsection \<open>Handlers and catalog\<close>

definition generate_path_param_extraction :: "RequestParam list \<Rightarrow> string" where
  \<open>generate_path_param_extraction params =
     (if params = [] then ''pass  # No path parameters''
      else join ([CHR 0x0A] @ ''    '')
             (concat (map (\<lambda>param.
                [''if "'' @ (p_name param) @ ''" in arguments:'',
                 ''        path = path.replace("{'' @ (p_name param) @ ''}", str(arguments["'' @ (p_name param) @ ''"]))''])
              params)))\<close>

definition generate_query_param_extraction :: "RequestParam list \<Rightarrow> string" where
  \<open>generate_query_param_extraction params =
     (if params = [] then ''pass  # No query parameters''
      else join ([CHR 0x0A] @ ''    '')
             (concat (map (\<lambda>param.
                [''if "'' @ (p_name param) @ ''" in arguments:'',
                 ''        query_params["'' @ (p_name param) @ ''"] = arguments["'' @ (p_name param) @ ''"]''])
              params)))\<close>

text \<open>
  \<open>_generate_tool_code\<close> also builds the input schema and its \<open>json.dumps\<close> text, and
  uses neither in what it returns.
\<close>

definition generate_tool_code :: "APIEndpoint \<Rightarrow> string" where
  \<open>generate_tool_code ep =
     (let safe_name = python_safe_name (tool_name ep);
          desc_parts =
            [(e_method ep) @ '' '' @ (e_path ep)]
            @ (if query_params ep \<noteq> [] then [''Query params: '' @ (join '', '' (map p_name (query_params ep)))] else [])
            @ (if path_params ep \<noteq> [] then [''Path params: '' @ (join '', '' (map p_name (path_params ep)))] else []);
          description = join '' | '' desc_parts
      in join_nl
         ['''',
          ''@server.tool()'',
          ''async def '' @ safe_name @ ''(arguments: dict) -> list[types.TextContent]:'',
          ''    """'',
          ''    '' @ description,
          '''',
          ''    Endpoint: '' @ (e_method ep) @ '' '' @ (e_path ep),
          ''    """'',
          ''    # Extract path parameters'',
          ''    path = "'' @ (e_path ep) @ ''"'',
          ''    '' @ (generate_path_param_extraction (path_params ep)),
          '''',
          ''    # Extract query parameters'',
          ''    query_params = {}'',
          ''    '' @ (generate_query_param_extraction (query_params ep)),
          '''',
          ''    # Extract body if present'',
          ''    body = arguments.get("body")'',
          '''',
          ''    # Make the API request'',
          ''    result = await client.request('',
          ''        method="'' @ (e_method ep) @ ''",'',
          ''        path=path,'',
          ''        query_params=query_params,'',
          ''        body=body'',
          ''    )'',
          '''',
          ''    return [types.TextContent(type="text", text=json.dumps(result, indent=2))]'',
          ''''])\<close>

definition tools_list_item :: "genlib \<Rightarrow> APIEndpoint \<Rightarrow> string" where
  \<open>tools_list_item G ep =
     (let description = join '' | '' [(e_method ep) @ '' '' @ (e_path ep)];
          schema = input_schema ep;
          schema = (if falsy schema
                    then JObj [(''type'', JStr ''object''), (''properties'', JObj [])]
                    else schema)
      in join_nl
         [''types.Tool('',
          ''            name="'' @ (tool_name ep) @ ''",'',
          ''            description="'' @ description @ ''",'',
          ''            inputSchema='' @ (json_dumps G None schema),
          ''        )''])\<close>

definition generate_tools_list_items :: "genlib \<Rightarrow> ServiceInfo \<Rightarrow> string" where
  "generate_tools_list_items G si =
     join ('','' @ [CHR 0x0A] @ ''        '') (map (tools_list_item G) (endpoints si))"

subsection \<open>The files\<close>

definition server_py :: "genlib \<Rightarrow> ServiceInfo \<Rightarrow> string" where
  \<open>server_py G si =
     (let tools_code = join_nl (map generate_tool_code (endpoints si))
      in join_nl
         [''#!/usr/bin/env python3'',
          ''"""'',
          (server_name si) @ '' MCP Server'',
          '''',
          ''Auto-generated MCP server for '' @ (s_name si) @ '' API.'',
          ''Base URL: '' @ (s_base_url si),
          '''',
          ''Generated on: '' @ (now_isoformat G),
          ''"""'',
          '''',
          ''import asyncio'',
          ''import json'',
          ''import os'',
          ''from typing import Any'',
          '''',
          ''import mcp.types as types'',
          ''from mcp.server import Server'',
          ''from mcp.server.stdio import stdio_server'',
          '''',
          ''from .auth import AuthManager'',
          ''from .client import APIClient'',
          '''',
          ''# Initialize the MCP server'',
          ''server = Server("'' @ (server_name si) @ ''")'',
          '''',
          ''# Initialize authentication manager'',
          ''auth_manager = AuthManager()'',
          '''',
          ''# Initialize API client'',
          ''client: APIClient | None = None'',
          '''',
          '''',
          ''def get_client() -> APIClient:'',
          ''    """Get or create the API client."""'',
          ''    global client'',
          ''    if client is None:'',
          ''        client = APIClient('',
          ''            base_url=os.getenv("'' @ (env_var_name si ''BASE_URL'') @ ''", "'' @ (s_base_url si) @ ''"),'',
          ''            auth_manager=auth_manager'',
          ''        )'',
          ''    return client'',
          '''',
          '''',
          ''@server.list_tools()'',
          ''async def list_tools() -> list[types.Tool]:'',
          ''    """List all available tools."""'',
          ''    return ['',
          ''        '' @ (generate_tools_list_items G si),
          ''    ]'',
          '''',
          tools_code,
          '''',
          '''',
          ''async def main():'',
          ''    """Main entry point for the MCP server."""'',
          ''    global client'',
          ''    client = get_client()'',
          '''',
          ''    async with stdio_server() as (read_stream, write_stream):'',
          ''        await server.run('',
          ''            read_stream,'',
          ''            write_stream,'',
          ''            server.create_initialization_options()'',
          ''        )'',
          '''',
          '''',
          ''if __name__ == "__main__":'',
          ''    asyncio.run(main())'',
          ''''])\<close>

definition init_py :: "ServiceInfo \<Rightarrow> string" where
  \<open>init_py si =
     join_nl
       [''"""'',
        (server_name si) @ '' MCP Server Package'',
        ''"""'',
        '''',
        ''from .server import server, main'',
        '''',
        ''__all__ = ["server", "main"]'',
        ''__version__ = "0.1.0"'',
        '''']\<close>

definition auth_py :: "ServiceInfo \<Rightarrow> string" where
  \<open>auth_py si =
     (let env_prefix = env_prefix_of si
      in join_nl
         [''"""'',
          ''Authentication Manager for '' @ (server_name si),
          '''',
          ''Supports multiple authentication methods:'',
          ''- API Key authentication'',
          ''- Bearer token authentication'',
          ''- Basic authentication'',
          ''- Custom header authentication'',
          ''- OAuth2 (client credentials flow)'',
          ''"""'',
          '''',
          ''import base64'',
          ''import os'',
          ''from dataclasses import dataclass'',
          ''from enum import Enum'',
          ''from typing import Any'',
          '''',
          '''',
          ''class AuthType(Enum):'',
          ''    """Supported authentication types."""'',
          ''    NONE = "none"'',
          ''    API_KEY = "api_key"'',
          ''    BEARER = "bearer"'',
          ''    BASIC = "basic"'',
          ''    CUSTOM_HEADER = "custom_header"'',
          ''    OAUTH2_CLIENT_CREDENTIALS = "oauth2_client_credentials"'',
          '''',
          '''',
          ''@dataclass'',
          ''class AuthConfig:'',
          ''    """Authentication configuration."""'',
          ''    auth_type: AuthType = AuthType.NONE'',
          ''    api_key: str | None = None'',
          ''    api_key_header: str = "X-API-Key"'',
          ''    bearer_token: str | None = None'',
          ''    basic_username: str | None = None'',
          ''    basic_password: str | None = None'',
          ''    custom_header_name: str | None = None'',
          ''    custom_header_value: str | None = None'',
          ''    oauth2_client_id: str | None = None'',
          ''    oauth2_client_secret: str | None = None'',
          ''    oauth2_token_url: str | None = None'',
          ''    oauth2_scope: str | None = None'',
          '''',
          '''',
          ''class AuthManager:'',
          ''    """'',
          ''    Manages authentication for API requests.'',
          '''',
          ''    Supports multiple authentication methods and automatically'',
          ''    applies the appropriate headers based on configuration.'',
          ''    """'',
          '''',
          ''    def __init__(self, config: AuthConfig | None = None):'',
          ''        """Initialize the auth manager with optional config."""'',
          ''        self.config = config or self._load_from_env()'',
          ''        self._oauth2_token: str | None = None'',
          ''        self._token_expiry: float = 0'',
          '''',
          ''    def _load_from_env(self) -> AuthConfig:'',
          ''        """Load authentication configuration from environment variables."""'',
          ''        auth_type_str = os.getenv("'' @ env_prefix @ ''_AUTH_TYPE", "none").lower()'',
          '''',
          ''        try:'',
          ''            auth_type = AuthType(auth_type_str)'',
          ''        except ValueError:'',
          ''            auth_type = AuthType.NONE'',
          '''',
          ''        return AuthConfig('',
          ''            auth_type=auth_type,'',
          ''            api_key=os.getenv("'' @ env_prefix @ ''_API_KEY"),'',
          ''            api_key_header=os.getenv("'' @ env_prefix @ ''_API_KEY_HEADER", "X-API-Key"),'',
          ''            bearer_token=os.getenv("'' @ env_prefix @ ''_BEARER_TOKEN"),'',
          ''            basic_username=os.getenv("'' @ env_prefix @ ''_BASIC_USERNAME"),'',
          ''            basic_password=os.getenv("'' @ env_prefix @ ''_BASIC_PASSWORD"),'',
          ''            custom_header_name=os.getenv("'' @ env_prefix @ ''_CUSTOM_HEADER_NAME"),'',
          ''            custom_header_value=os.getenv("'' @ env_prefix @ ''_CUSTOM_HEADER_VALUE"),'',
          ''            oauth2_client_id=os.getenv("'' @ env_prefix @ ''_OAUTH2_CLIENT_ID"),'',
          ''            oauth2_client_secret=os.getenv("'' @ env_prefix @ ''_OAUTH2_CLIENT_SECRET"),'',
          ''            oauth2_token_url=os.getenv("'' @ env_prefix @ ''_OAUTH2_TOKEN_URL"),'',
          ''            oauth2_scope=os.getenv("'' @ env_prefix @ ''_OAUTH2_SCOPE"),'',
          ''        )'',
          '''',
          ''    def get_auth_headers(self) -> dict[str, str]:'',
          ''        """Get authentication headers based on current configuration."""'',
          ''        if self.config.auth_type == AuthType.NONE:'',
          ''            return {}'',
          '''',
          ''        elif self.config.auth_type == AuthType.API_KEY:'',
          ''            if self.config.api_key:'',
          ''                return {self.config.api_key_header: self.config.api_key}'',
          ''            return {}'',
          '''',
          ''        elif self.config.auth_type == AuthType.BEARER:'',
          ''            if self.config.bearer_token:'',
          ''                return {"Authorization": f"Bearer {self.config.bearer_token}"}'',
          ''            return {}'',
          '''',
          ''        elif self.config.auth_type == AuthType.BASIC:'',
          ''            if self.config.basic_username and self.config.basic_password:'',
          ''                credentials = f"{self.config.basic_username}:{self.config.basic_password}"'',
          ''                encoded = base64.b64encode(credentials.encode()).decode()'',
          ''                return {"Authorization": f"Basic {encoded}"}'',
          ''            return {}'',
          '''',
          ''        elif self.config.auth_type == AuthType.CUSTOM_HEADER:'',
          ''            if self.config.custom_header_name and self.config.custom_header_value:'',
          ''                return {self.config.custom_header_name: self.config.custom_header_value}'',
          ''            return {}'',
          '''',
          ''        elif self.config.auth_type == AuthType.OAUTH2_CLIENT_CREDENTIALS:'',
          ''            token = self._get_oauth2_token()'',
          ''            if token:'',
          ''                return {"Authorization": f"Bearer {token}"}'',
          ''            return {}'',
          '''',
          ''        return {}'',
          '''',
          ''    def _get_oauth2_token(self) -> str | None:'',
          ''        """Get OAuth2 token, refreshing if necessary."""'',
          ''        import time'',
          '''',
          ''        # Return cached token if still valid'',
          ''        if self._oauth2_token and time.time() < self._token_expiry - 60:'',
          ''            return self._oauth2_token'',
          '''',
          ''        # Fetch new token'',
          ''        if not all(['',
          ''            self.config.oauth2_client_id,'',
          ''            self.config.oauth2_client_secret,'',
          ''            self.config.oauth2_token_url'',
          ''        ]):'',
          ''            return None'',
          '''',
          ''        try:'',
          ''            import httpx'',
          '''',
          ''            data = {'',
          ''                "grant_type": "client_credentials",'',
          ''                "client_id": self.config.oauth2_client_id,'',
          ''                "client_secret": self.config.oauth2_client_secret,'',
          ''            }'',
          '''',
          ''            if self.config.oauth2_scope:'',
          ''                data["scope"] = self.config.oauth2_scope'',
          '''',
          ''            with httpx.Client() as client:'',
          ''                response = client.post('',
          ''                    self.config.oauth2_token_url,'',
          ''                    data=data,'',
          ''                    headers={"Content-Type": "application/x-www-form-urlencoded"}'',
          ''                )'',
          ''                response.raise_for_status()'',
          '''',
          ''                token_data = response.json()'',
          ''                self._oauth2_token = token_data.get("access_token")'',
          ''                expires_in = token_data.get("expires_in", 3600)'',
          ''                self._token_expiry = time.time() + expires_in'',
          '''',
          ''                return self._oauth2_token'',
          '''',
          ''        except Exception as e:'',
          ''            print(f"OAuth2 token fetch failed: {e}")'',
          ''            return None'',
          '''',
          ''    def is_configured(self) -> bool:'',
          ''        """Check if authentication is properly configured."""'',
          ''        if self.config.auth_type == AuthType.NONE:'',
          ''            return True'',
          '''',
          ''        elif self.config.auth_type == AuthType.API_KEY:'',
          ''            return bool(self.config.api_key)'',
          '''',
          ''        elif self.config.auth_type == AuthType.BEARER:'',
          ''            return bool(self.config.bearer_token)'',
          '''',
          ''        elif self.config.auth_type == AuthType.BASIC:'',
          ''            return bool(self.config.basic_username and self.config.basic_password)'',
          '''',
          ''        elif self.config.auth_type == AuthType.CUSTOM_HEADER:'',
          ''            return bool(self.config.custom_header_name and self.config.custom_header_value)'',
          '''',
          ''        elif self.config.auth_type == AuthType.OAUTH2_CLIENT_CREDENTIALS:'',
          ''            return bool('',
          ''                self.config.oauth2_client_id and'',
          ''                self.config.oauth2_client_secret and'',
          ''                self.config.oauth2_token_url'',
          ''            )'',
          '''',
          ''        return False'',
          ''''])\<close>

definition client_py :: "ServiceInfo \<Rightarrow> string" where
  \<open>client_py si =
     join_nl
       [''"""'',
        ''API Client for '' @ (server_name si),
        '''',
        ''Handles HTTP requests to the API with authentication,'',
        ''error handling, and response parsing.'',
        ''"""'',
        '''',
        ''import json'',
        ''from typing import Any'',
        ''from urllib.parse import urlencode'',
        '''',
        ''import httpx'',
        '''',
        ''from .auth import AuthManager'',
        '''',
        '''',
        ''class APIError(Exception):'',
        ''    """API request error."""'',
        '''',
        ''    def __init__(self, status_code: int, message: str, response_body: Any = None):'',
        ''        self.status_code = status_code'',
        ''        self.message = message'',
        ''        self.response_body = response_body'',
        ''        super().__init__(f"API Error {status_code}: {message}")'',
        '''',
        '''',
        ''class APIClient:'',
        ''    """'',
        ''    HTTP client for making API requests.'',
        '''',
        ''    Handles authentication, request formatting, and error handling.'',
        ''    """'',
        '''',
        ''    def __init__('',
        ''        self,'',
        ''        base_url: str,'',
        ''        auth_manager: AuthManager,'',
        ''        timeout: float = 30.0'',
        ''    ):'',
        ''        """Initialize the API client."""'',
        ''        self.base_url = base_url.rstrip(\'/\')'',
        ''        self.auth_manager = auth_manager'',
        ''        self.timeout = timeout'',
        ''        self._client: httpx.AsyncClient | None = None'',
        '''',
        ''    async def _get_client(self) -> httpx.AsyncClient:'',
        ''        """Get or create the HTTP client."""'',
        ''        if self._client is None or self._client.is_closed:'',
        ''            self._client = httpx.AsyncClient('',
        ''                timeout=httpx.Timeout(self.timeout),'',
        ''                follow_redirects=True'',
        ''            )'',
        ''        return self._client'',
        '''',
        ''    async def request('',
        ''        self,'',
        ''        method: str,'',
        ''        path: str,'',
        ''        query_params: dict[str, Any] | None = None,'',
        ''        body: dict[str, Any] | None = None,'',
        ''        headers: dict[str, str] | None = None'',
        ''    ) -> Any:'',
        ''        """'',
        ''        Make an API request.'',
        '''',
        ''        Args:'',
        ''            method: HTTP method (GET, POST, PUT, DELETE, etc.)'',
        ''            path: API endpoint path'',
        ''            query_params: Optional query parameters'',
        ''            body: Optional request body (will be JSON encoded)'',
        ''            headers: Optional additional headers'',
        '''',
        ''        Returns:'',
        ''            Parsed JSON response or raw text'',
        '''',
        ''        Raises:'',
        ''            APIError: If the request fails'',
        ''        """'',
        ''        client = await self._get_client()'',
        '''',
        ''        # Build URL'',
        ''        url = f"{self.base_url}{path}"'',
        ''        if query_params:'',
        ''            # Filter out None values'',
        ''            filtered_params = {k: v for k, v in query_params.items() if v is not None}'',
        ''            if filtered_params:'',
        ''                url = f"{url}?{urlencode(filtered_params)}"'',
        '''',
        ''        # Build headers'',
        ''        request_headers = {'',
        ''            "Accept": "application/json",'',
        ''            "Content-Type": "application/json",'',
        ''        }'',
        '''',
        ''        # Add auth headers'',
        ''        auth_headers = self.auth_manager.get_auth_headers()'',
        ''        request_headers.update(auth_headers)'',
        '''',
        ''        # Add custom headers'',
        ''        if headers:'',
        ''            request_headers.update(headers)'',
        '''',
        ''        # Make request'',
        ''        try:'',
        ''            if body:'',
        ''                response = await client.request('',
        ''                    method=method,'',
        ''                    url=url,'',
        ''                    headers=request_headers,'',
        ''                    json=body'',
        ''                )'',
        ''            else:'',
        ''                response = await client.request('',
        ''                    method=method,'',
        ''                    url=url,'',
        ''                    headers=request_headers'',
        ''                )'',
        '''',
        ''            # Handle response'',
        ''            if response.status_code >= 400:'',
        ''                try:'',
        ''                    error_body = response.json()'',
        ''                except Exception:'',
        ''                    error_body = response.text'',
        '''',
        ''                raise APIError('',
        ''                    status_code=response.status_code,'',
        ''                    message=f"Request failed: {response.status_code}",'',
        ''                    response_body=error_body'',
        ''                )'',
        '''',
        ''            # Parse response'',
        ''            content_type = response.headers.get("content-type", "")'',
        ''            if "application/json" in content_type:'',
        ''                return response.json()'',
        ''            else:'',
        ''                return {"text": response.text, "status_code": response.status_code}'',
        '''',
        ''        except httpx.TimeoutException as e:'',
        ''            raise APIError('',
        ''                status_code=408,'',
        ''                message=f"Request timed out: {str(e)}"'',
        ''            )'',
        ''        except httpx.RequestError as e:'',
        ''            raise APIError('',
        ''                status_code=0,'',
        ''                message=f"Request failed: {str(e)}"'',
        ''            )'',
        '''',
        ''    async def close(self) -> None:'',
        ''        """Close the HTTP client."""'',
        ''        if self._client and not self._client.is_closed:'',
        ''            await self._client.aclose()'',
        ''            self._client = None'',
        '''']\<close>

definition pyproject_toml :: "ServiceInfo \<Rightarrow> string" where
  \<open>pyproject_toml si =
     join_nl
       [''[project]'',
        ''name = "'' @ (server_name si) @ ''"'',
        ''version = "0.1.0"'',
        ''description = "MCP server for '' @ (s_name si) @ '' API"'',
        ''readme = "README.md"'',
        ''requires-python = ">=3.10"'',
        ''dependencies = ['',
        ''    "mcp>=1.0.0",'',
        ''    "httpx>=0.27.0",'',
        '']'',
        '''',
        ''[project.scripts]'',
        (server_name si) @ '' = "'' @ (replace (server_name si) ''-'' ''_'') @ ''.server:main"'',
        '''',
        ''[build-system]'',
        ''requires = ["hatchling"]'',
        ''build-backend = "hatchling.build"'',
        '''',
        ''[tool.hatch.build.targets.wheel]'',
        ''packages = ["'' @ (replace (server_name si) ''-'' ''_'') @ ''"]'',
        '''',
        ''[tool.uv]'',
        ''dev-dependencies = ['',
        ''    "pytest>=8.0.0",'',
        ''    "pytest-asyncio>=0.23.0",'',
        '']'',
        '''']\<close>

text \<open>The table rows and the example that the README gives for the auth patterns.\<close>

definition auth_readme_rows :: "string \<Rightarrow> AuthPattern \<Rightarrow> string list" where
  \<open>auth_readme_rows env_prefix auth =
     (if auth_type auth = ''bearer'' then
        [''| `'' @ env_prefix @ ''_AUTH_TYPE` | Set to `bearer` | Yes |'',
         ''| `'' @ env_prefix @ ''_BEARER_TOKEN` | Bearer token for authentication | Yes |'']
      else if auth_type auth = ''api_key'' then
        [''| `'' @ env_prefix @ ''_AUTH_TYPE` | Set to `api_key` | Yes |'',
         ''| `'' @ env_prefix @ ''_API_KEY` | API key for authentication | Yes |'']
        @ (if header_name auth \<noteq> [] \<and> header_name auth \<noteq> ''X-API-Key''
           then [''| `'' @ env_prefix @ ''_API_KEY_HEADER` | Header name (default: '' @ (header_name auth) @ '') | No |'']
           else [])
      else if auth_type auth = ''custom_header'' then
        [''| `'' @ env_prefix @ ''_AUTH_TYPE` | Set to `custom_header` | Yes |'',
         ''| `'' @ env_prefix @ ''_CUSTOM_HEADER_NAME` | Header name: `'' @ (header_name auth) @ ''` | Yes |'',
         ''| `'' @ env_prefix @ ''_CUSTOM_HEADER_VALUE` | Header value | Yes |'']
      else [])\<close>

definition auth_readme_example :: "string \<Rightarrow> AuthPattern \<Rightarrow> string list" where
  \<open>auth_readme_example env_prefix auth =
     (if auth_type auth = ''bearer'' then
        [''export '' @ env_prefix @ ''_AUTH_TYPE=bearer'',
         ''export '' @ env_prefix @ ''_BEARER_TOKEN=your_token_here'']
      else if auth_type auth = ''api_key'' then
        [''export '' @ env_prefix @ ''_AUTH_TYPE=api_key'',
         ''export '' @ env_prefix @ ''_API_KEY=your_api_key_here'']
      else if auth_type auth = ''custom_header'' then
        [''export '' @ env_prefix @ ''_AUTH_TYPE=custom_header'',
         ''export '' @ env_prefix @ ''_CUSTOM_HEADER_NAME='' @ (header_name auth),
         ''export '' @ env_prefix @ ''_CUSTOM_HEADER_VALUE=your_value_here'']
      else [])\<close>

definition generate_auth_readme_section :: "ServiceInfo \<Rightarrow> string \<Rightarrow> string" where
  \<open>generate_auth_readme_section si env_prefix =
     (if auth_patterns si = [] then
        join_nl
         [''## Configuration'',
          '''',
          ''No authentication was detected in the captured API calls. This API appears to be public.'',
          '''',
          ''### Environment Variables'',
          '''',
          ''| Variable | Description | Required |'',
          ''|----------|-------------|----------|'',
          ''| `'' @ env_prefix @ ''_BASE_URL` | API base URL (default: '' @ (s_base_url si) @ '') | No |'']
      else
        (let lines =
               [join_nl
                [''## Configuration'',
                 '''',
                 ''### Environment Variables'',
                 '''',
                 ''| Variable | Description | Required |'',
                 ''|----------|-------------|----------|''],
                ''| `'' @ env_prefix @ ''_BASE_URL` | API base URL (default: '' @ (s_base_url si) @ '') | No |'']
               @ concat (map (auth_readme_rows env_prefix) (auth_patterns si));
             example_lines =
               [join_nl
                ['''',
                 ''### Example Configuration'',
                 '''',
                 ''```bash'']]
               @ auth_readme_example env_prefix (hd (auth_patterns si))
               @ [''```'']
         in join_nl lines @ join_nl example_lines))\<close>

text \<open>
  The loop of \<open>_generate_claude_desktop_config\<close> leaves after its first pattern, so
  \<open>env_section\<close> is decided by the first pattern alone.
\<close>

definition claude_env_section :: "string \<Rightarrow> AuthPattern \<Rightarrow> string" where
  \<open>claude_env_section env_prefix auth =
     (if auth_type auth = ''bearer'' then
        join_nl
         ['','',
          ''      "env": {'',
          ''        "'' @ env_prefix @ ''_AUTH_TYPE": "bearer",'',
          ''        "'' @ env_prefix @ ''_BEARER_TOKEN": "your_token_here"'',
          ''      }'']
      else if auth_type auth = ''api_key'' then
        join_nl
         ['','',
          ''      "env": {'',
          ''        "'' @ env_prefix @ ''_AUTH_TYPE": "api_key",'',
          ''        "'' @ env_prefix @ ''_API_KEY": "your_api_key_here"'',
          ''      }'']
      else if auth_type auth = ''custom_header'' then
        join_nl
         ['','',
          ''      "env": {'',
          ''        "'' @ env_prefix @ ''_AUTH_TYPE": "custom_header",'',
          ''        "'' @ env_prefix @ ''_CUSTOM_HEADER_NAME": "'' @ (header_name auth) @ ''",'',
          ''        "'' @ env_prefix @ ''_CUSTOM_HEADER_VALUE": "your_value_here"'',
          ''      }'']
      else [])\<close>

definition generate_claude_desktop_config :: "ServiceInfo \<Rightarrow> string \<Rightarrow> string" where
  \<open>generate_claude_desktop_config si env_prefix =
     (if auth_patterns si = [] then
        join_nl
         [''```json'',
          ''{'',
          ''  "mcpServers": {'',
          ''    "'' @ (server_name si) @ ''": {'',
          ''      "command": "uv",'',
          ''      "args": ["run", "'' @ (server_name si) @ ''"],'',
          ''      "cwd": "/path/to/'' @ (server_name si) @ ''"'',
          ''    }'',
          ''  }'',
          ''}'',
          ''```'']
      else
        (let env_section = claude_env_section env_prefix (hd (auth_patterns si))
         in join_nl
           [''```json'',
            ''{'',
            ''  "mcpServers": {'',
            ''    "'' @ (server_name si) @ ''": {'',
            ''      "command": "uv",'',
            ''      "args": ["run", "'' @ (server_name si) @ ''"],'',
            ''      "cwd": "/path/to/'' @ (server_name si) @ ''"'' @ env_section,
            ''    }'',
            ''  }'',
            ''}'',
            ''```'']))\<close>

definition tool_doc :: "APIEndpoint \<Rightarrow> string" where
  \<open>tool_doc ep =
     (let params =
            map (\<lambda>p. let req_mark = (if required p then '' (required)'' else [])
                      in ''  - `'' @ (p_name p) @ ''`: '' @ (p_description p) @ req_mark)
              (path_params ep @ query_params ep);
          params_str = (if params \<noteq> [] then join_nl params else ''  No parameters'')
      in join_nl
         [''### `'' @ (tool_name ep) @ ''`'',
          '''',
          (e_method ep) @ '' '' @ (e_path ep),
          '''',
          ''**Parameters:**'',
          params_str,
          ''''])\<close>

definition readme_md :: "ServiceInfo \<Rightarrow> string" where
  \<open>readme_md si =
     (let env_prefix = env_prefix_of si;
          tools_section = join_nl (map tool_doc (endpoints si));
          auth_section = generate_auth_readme_section si env_prefix;
          claude_config = generate_claude_desktop_config si env_prefix
      in join_nl
         [''# '' @ (server_name si),
          '''',
          ''MCP (Model Context Protocol) server for the '' @ (s_name si) @ '' API.'',
          '''',
          ''**Base URL:** `'' @ (s_base_url si) @ ''`'',
          '''',
          ''## Installation'',
          '''',
          ''```bash'',
          ''cd '' @ (server_name si),
          ''uv sync'',
          ''```'',
          '''',
          auth_section,
          '''',
          ''## Usage'',
          '''',
          ''### Local Installation'',
          '''',
          ''#### Claude Desktop'',
          '''',
          ''Add this to your Claude Desktop configuration file:'',
          '''',
          ''- **macOS**: `~/Library/Application Support/Claude/claude_desktop_config.json`'',
          ''- **Windows**: `%APPDATA%'' @ [CHR 0x5C] @ ''Claude'' @ [CHR 0x5C] @ ''claude_desktop_config.json`'',
          '''',
          claude_config,
          '''',
          ''#### Claude Code'',
          '''',
          ''```bash'',
          ''claude mcp add '' @ (server_name si) @ '' -- uv run --directory /path/to/'' @ (server_name si) @ '' '' @ (server_name si),
          ''```'',
          '''',
          ''### Remote Server'',
          '''',
          ''If the MCP server is hosted on a remote server, configure the clients to connect via SSE:'',
          '''',
          ''#### Claude Desktop (Remote)'',
          '''',
          ''```json'',
          ''{'',
          ''  "mcpServers": {'',
          ''    "'' @ (server_name si) @ ''": {'',
          ''      "url": "https://your-server.com/'' @ (server_name si) @ ''/sse"'',
          ''    }'',
          ''  }'',
          ''}'',
          ''```'',
          '''',
          ''#### Claude Code (Remote)'',
          '''',
          ''```bash'',
          ''claude mcp add '' @ (server_name si) @ '' --transport sse https://your-server.com/'' @ (server_name si) @ ''/sse'',
          ''```'',
          '''',
          ''## Available Tools'',
          '''',
          tools_section,
          '''',
          ''## Development'',
          '''',
          ''```bash'',
          ''# Run the server directly'',
          ''uv run '' @ (server_name si),
          '''',
          ''# Run tests'',
          ''uv run pytest'',
          ''```'',
          '''',
          ''## License'',
          '''',
          ''MIT'',
          ''''])\<close>

definition env_example_block :: "string \<Rightarrow> AuthPattern \<Rightarrow> string list" where
  \<open>env_example_block env_prefix auth =
     [[]]
     @ (if auth_type auth = ''bearer'' then
          [env_prefix @ ''_AUTH_TYPE=bearer'',
           env_prefix @ ''_BEARER_TOKEN=your_token_here'']
        else if auth_type auth = ''api_key'' then
          [env_prefix @ ''_AUTH_TYPE=api_key'',
           env_prefix @ ''_API_KEY=your_api_key_here'']
          @ (if header_name auth \<noteq> [] \<and> header_name auth \<noteq> ''X-API-Key''
             then [env_prefix @ ''_API_KEY_HEADER='' @ (header_name auth)]
             else [])
        else if auth_type auth = ''custom_header'' then
          [env_prefix @ ''_AUTH_TYPE=custom_header'',
           env_prefix @ ''_CUSTOM_HEADER_NAME='' @ (header_name auth),
           env_prefix @ ''_CUSTOM_HEADER_VALUE=your_value_here'']
        else [])\<close>

definition env_example :: "ServiceInfo \<Rightarrow> string" where
  \<open>env_example si =
     (let env_prefix = env_prefix_of si;
          lines =
            [''# '' @ (server_name si) @ '' Configuration'',
             ''# Copy this file to .env and update with your values'',
             [],
             ''# Base URL (optional, defaults to discovered URL)'',
             ''# '' @ env_prefix @ ''_BASE_URL='' @ (s_base_url si)]
            @ (if auth_patterns si = [] then
                 [[],
                  ''# No authentication was detected in the API calls.'',
                  ''# This API appears to be public.'']
               else concat (map (env_example_block env_prefix) (auth_patterns si)))
            @ [[]]
      in join_nl lines)\<close>

section \<open>Writing the package\<close>

text \<open>
  The exceptions that the code raises or meets, each by the name of its class. The file
  system holds the text of every regular file by its path; \<open>can_write\<close> says at which paths
  a file or directory can be created. Directories themselves are not recorded.
  \<open>read_error\<close> gives the exception that \<open>open\<close>, or reading as UTF-8 text, raises at a
  path where something other than a readable text file is: \<open>IsADirectoryError\<close> for a
  directory, \<open>PermissionError\<close> for a file that may not be read, \<open>UnicodeDecodeError\<close>
  for bytes that are not UTF-8. A step takes the world and returns the world it leaves, with
  its result or the exception it raises; what was written before an exception stays
  written.
\<close>

datatype exn =
    FileNotFoundError
  | IsADirectoryError
  | PermissionError
  | UnicodeDecodeError
  | JSONDecodeError
  | RecursionError
  | ValueError
  | AttributeError
  | TypeError
  | OSError

record world =
  files :: "string \<rightharpoonup> string"
  read_error :: "string \<rightharpoonup> exn"
  can_write :: "string \<Rightarrow> bool"

type_synonym 'a io = "world \<Rightarrow> (exn + 'a) \<times> world"

definition io_then :: "unit io \<Rightarrow> 'a io \<Rightarrow> 'a io" where
  "io_then m k w = (case m w of (Inl e, w') \<Rightarrow> (Inl e, w') | (Inr u, w') \<Rightarrow> k w')"

definition io_return :: "'a \<Rightarrow> 'a io" where
  "io_return x w = (Inr x, w)"

text \<open>\<open>os.path.join\<close> of two POSIX paths.\<close>

definition path_join :: "string \<Rightarrow> string \<Rightarrow> string" where
  "path_join a b =
     (if startswith b ''/'' then b
      else if a = [] \<or> endswith a ''/'' then a @ b
      else a @ ''/'' @ b)"

definition makedirs :: "string \<Rightarrow> unit io" where
  "makedirs d w = (if can_write w d then (Inr (), w) else (Inl OSError, w))"

definition write_file :: "string \<Rightarrow> string \<Rightarrow> string \<Rightarrow> unit io" where
  "write_file directory filename content w =
     (let filepath = path_join directory filename in
      if can_write w filepath then (Inr (), w\<lparr>files := (files w)(filepath \<mapsto> content)\<rparr>)
      else (Inl OSError, w))"

definition rename :: "string \<Rightarrow> string \<Rightarrow> unit io" where
  "rename src dst w =
     (case files w src of
        None \<Rightarrow> (Inl FileNotFoundError, w)
      | Some c \<Rightarrow>
          if can_write w dst
          then (Inr (), w\<lparr>files := ((files w)(src := None))(dst \<mapsto> c)\<rparr>)
          else (Inl OSError, w))"

text \<open>The loop of \<open>_generate_pyproject_toml\<close> that moves the Python files into the package.\<close>

fun move_files :: "string \<Rightarrow> string \<Rightarrow> string list \<Rightarrow> unit io" where
  "move_files server_dir package_dir [] = io_return ()"
| "move_files server_dir package_dir (filename # fs) =
     (\<lambda>w. let src = path_join server_dir filename; dst = path_join package_dir filename in
          if files w src \<noteq> None
          then io_then (rename src dst) (move_files server_dir package_dir fs) w
          else move_files server_dir package_dir fs w)"

definition generate_pyproject_toml :: "ServiceInfo \<Rightarrow> string \<Rightarrow> unit io" where
  "generate_pyproject_toml si server_dir =
     (let content = pyproject_toml si;
          package_dir = path_join server_dir (replace (server_name si) ''-'' ''_'')
      in io_then (makedirs package_dir)
        (io_then (move_files server_dir package_dir
                    [''server.py'', ''__init__.py'', ''auth.py'', ''client.py''])
          (write_file server_dir ''pyproject.toml'' content)))"

definition generate :: "genlib \<Rightarrow> ServiceInfo \<Rightarrow> string \<Rightarrow> string io" where
  "generate G si output_dir =
     (let server_dir = path_join output_dir (server_name si) in
      io_then (makedirs server_dir)
     (io_then (write_file server_dir ''server.py'' (server_py G si))
     (io_then (write_file server_dir ''__init__.py'' (init_py si))
     (io_then (write_file server_dir ''auth.py'' (auth_py si))
     (io_then (write_file server_dir ''client.py'' (client_py si))
     (io_then (generate_pyproject_toml si server_dir)
     (io_then (write_file server_dir ''README.md'' (readme_md si))
     (io_then (write_file server_dir ''.env.example'' (env_example si))
     (io_return server_dir)))))))))"

section \<open>Loading the trace and the \<open>create\<close> command\<close>

text \<open>
  Two library calls of the parser can raise an exception that the parser does not catch:
  \<open>urlparse\<close> raises \<open>ValueError\<close> for some URLs (a bracket in the host that is not
  closed), and \<open>json.loads\<close> raises \<open>RecursionError\<close> for a text that is nested too deep.
  For which arguments they do is a parameter: \<open>urlparse_raises X url\<close> and
  \<open>loads_raises X s\<close> give the exception, if there is one. Where a call raises nothing,
  \<open>urlparse L\<close> and \<open>json_loads L\<close> give its result.
\<close>

record pyraises =
  urlparse_raises :: "string \<Rightarrow> exn option"
  loads_raises :: "string \<Rightarrow> exn option"

text \<open>\<open>open(path, 'r', encoding='utf-8')\<close> and reading the whole file.\<close>

definition read_text :: "world \<Rightarrow> string \<Rightarrow> exn + string" where
  "read_text w path =
     (case read_error w path of
        Some e \<Rightarrow> Inl e
      | None \<Rightarrow>
          (case files w path of
             None \<Rightarrow> Inl FileNotFoundError
           | Some content \<Rightarrow> Inr content))"

definition json_load :: "pylib \<Rightarrow> pyraises \<Rightarrow> string \<Rightarrow> exn + json" where
  "json_load L X content =
     (case loads_raises X content of
        Some e \<Rightarrow> Inl e
      | None \<Rightarrow>
          (case json_loads L content of
             None \<Rightarrow> Inl JSONDecodeError
           | Some v \<Rightarrow> Inr v))"

text \<open>
  \<open>HARParser.load\<close>, returning what it stores in \<open>self.entries\<close>, which is any JSON value:
  \<open>self.har_data.get('log', {}).get('entries', [])\<close> raises \<open>AttributeError\<close> when the
  loaded value, or the value of \<open>log\<close>, is not an object.
\<close>

definition load :: "pylib \<Rightarrow> pyraises \<Rightarrow> world \<Rightarrow> string \<Rightarrow> exn + json" where
  "load L X w har_path =
     (case read_text w har_path of
        Inl e \<Rightarrow> Inl e
      | Inr content \<Rightarrow>
          (case json_load L X content of
             Inl e \<Rightarrow> Inl e
           | Inr har_data \<Rightarrow>
               (case har_data of
                  JObj d \<Rightarrow>
                    (case map_of d ''log'' of
                       None \<Rightarrow> Inr (JList [])
                     | Some (JObj lg) \<Rightarrow>
                         (case map_of lg ''entries'' of
                            None \<Rightarrow> Inr (JList [])
                          | Some entries \<Rightarrow> Inr entries)
                     | Some _ \<Rightarrow> Inl AttributeError)
                | _ \<Rightarrow> Inl AttributeError)))"

text \<open>
  The parser reads an entry with \<open>.get\<close> and goes on as if every field had the type that the
  archive format gives it. \<open>decode_entry\<close> reads an entry that has these types into the
  record that \<open>parse\<close> takes, with the defaults of the \<open>.get\<close> calls; it is \<open>None\<close> for an
  entry in which a field that the code can read has another type. The two fields that the
  code never reads are taken as they come: the \<open>status\<close> is any value, and response headers
  that are not a list of name and value strings are left out. What the Python code does with
  an entry outside this reading depends on how far the run at hand reads the ill-typed
  field (it raises there, or never gets there and goes on), and is not modelled.
\<close>

definition get_str :: "(string \<times> json) list \<Rightarrow> string \<Rightarrow> string \<Rightarrow> string option" where
  "get_str d k dflt =
     (case map_of d k of None \<Rightarrow> Some dflt | Some (JStr s) \<Rightarrow> Some s | Some _ \<Rightarrow> None)"

definition get_obj :: "(string \<times> json) list \<Rightarrow> string \<Rightarrow> (string \<times> json) list option" where
  "get_obj d k =
     (case map_of d k of None \<Rightarrow> Some [] | Some (JObj kvs) \<Rightarrow> Some kvs | Some _ \<Rightarrow> None)"

definition get_list :: "(string \<times> json) list \<Rightarrow> string \<Rightarrow> json list option" where
  "get_list d k =
     (case map_of d k of None \<Rightarrow> Some [] | Some (JList xs) \<Rightarrow> Some xs | Some _ \<Rightarrow> None)"

definition decode_header :: "json \<Rightarrow> header option" where
  "decode_header j =
     (case j of
        JObj d \<Rightarrow>
          (case (get_str d ''name'' [], get_str d ''value'' []) of
             (Some n, Some v) \<Rightarrow> Some \<lparr>h_name = n, h_value = v\<rparr>
           | _ \<Rightarrow> None)
      | _ \<Rightarrow> None)"

definition decode_headers :: "(string \<times> json) list \<Rightarrow> header list option" where
  "decode_headers d =
     (case get_list d ''headers'' of
        None \<Rightarrow> None
      | Some xs \<Rightarrow> those (map decode_header xs))"

definition decode_form_param :: "json \<Rightarrow> form_param option" where
  "decode_form_param j =
     (case j of
        JObj d \<Rightarrow>
          (case (map_of d ''name'', get_str d ''value'' []) of
             (Some (JStr n), Some v) \<Rightarrow> Some \<lparr>fp_name = n, fp_value = v\<rparr>
           | _ \<Rightarrow> None)
      | _ \<Rightarrow> None)"

definition decode_post_data :: "(string \<times> json) list \<Rightarrow> post_data option option" where
  "decode_post_data d =
     (case map_of d ''postData'' of
        None \<Rightarrow> Some None
      | Some (JObj pd) \<Rightarrow>
          if pd = [] then Some None
          else
            (case (get_str pd ''mimeType'' [], get_str pd ''text'' [], get_list pd ''params'') of
               (Some m, Some t, Some ps) \<Rightarrow>
                 (case those (map decode_form_param ps) of
                    Some fps \<Rightarrow>
                      Some (Some \<lparr>pd_mimeType = m, pd_text = t, pd_params = fps\<rparr>)
                  | None \<Rightarrow> None)
             | _ \<Rightarrow> None)
      | Some v \<Rightarrow> if falsy v then Some None else None)"

definition decode_request :: "(string \<times> json) list \<Rightarrow> request option" where
  "decode_request d =
     (case (get_str d ''url'' [], get_str d ''method'' ''GET'', decode_headers d,
            decode_post_data d) of
        (Some u, Some m, Some hs, Some pd) \<Rightarrow>
          Some \<lparr>r_url = u, r_method = m, r_headers = hs, postData = pd\<rparr>
      | _ \<Rightarrow> None)"

definition decode_response :: "(string \<times> json) list \<Rightarrow> response option" where
  "decode_response d =
     (case get_obj d ''content'' of
        None \<Rightarrow> None
      | Some c \<Rightarrow>
          (case (get_str c ''text'' [], get_str c ''mimeType'' []) of
             (Some t, Some m) \<Rightarrow>
               Some \<lparr>status = (case map_of d ''status'' of None \<Rightarrow> JInt 200 | Some v \<Rightarrow> v),
                     resp_headers = (case decode_headers d of None \<Rightarrow> [] | Some hs \<Rightarrow> hs),
                     c_text = t, c_mimeType = m\<rparr>
           | _ \<Rightarrow> None))"

definition decode_entry :: "json \<Rightarrow> entry option" where
  "decode_entry j =
     (case j of
        JObj d \<Rightarrow>
          (case (get_obj d ''request'', get_obj d ''response'') of
             (Some rq, Some rs) \<Rightarrow>
               (case (decode_request rq, decode_response rs) of
                  (Some r, Some s) \<Rightarrow> Some \<lparr>req = r, resp = s\<rparr>
                | _ \<Rightarrow> None)
           | _ \<Rightarrow> None)
      | _ \<Rightarrow> None)"

text \<open>
  \<open>for entry in self.entries\<close>, on the value that \<open>load\<close> stored: a list gives its entries,
  read as above (\<open>None\<close> when one of them is outside the reading); a number, a truth value
  or \<open>null\<close> cannot be iterated (\<open>TypeError\<close>); a string or an object gives its characters
  or its keys, which are strings and have no \<open>.get\<close> (\<open>AttributeError\<close> at the first one),
  and gives nothing when it is empty.
\<close>

definition typed_entries :: "json \<Rightarrow> (exn + entry list) option" where
  "typed_entries entries =
     (case entries of
        JList xs \<Rightarrow>
          (case those (map decode_entry xs) of
             None \<Rightarrow> None
           | Some es \<Rightarrow> Some (Inr es))
      | JStr s \<Rightarrow> if s = [] then Some (Inr []) else Some (Inl AttributeError)
      | JObj d \<Rightarrow> if d = [] then Some (Inr []) else Some (Inl AttributeError)
      | _ \<Rightarrow> Some (Inl TypeError))"

text \<open>
  The exception, if any, that a library call raises while \<open>parse\<close> works on an entry, in
  the order of the calls: \<open>urlparse\<close> in \<open>_is_static_resource\<close>, at the head of the loop
  body; then, for an entry that is processed, \<open>json.loads\<close> in \<open>_extract_request_body\<close> and
  in \<open>_extract_response_example\<close>, which catch \<open>JSONDecodeError\<close> only. The loop stops at
  the first exception, and \<open>parse\<close> has written nothing.
\<close>

definition body_error :: "pyraises \<Rightarrow> request \<Rightarrow> exn option" where
  "body_error X request =
     (case postData request of
        None \<Rightarrow> None
      | Some post_data \<Rightarrow>
          if pd_text post_data \<noteq> [] \<and> str_in ''json'' (pd_mimeType post_data)
          then loads_raises X (pd_text post_data)
          else None)"

definition example_error :: "pyraises \<Rightarrow> response \<Rightarrow> exn option" where
  "example_error X response =
     (if c_text response \<noteq> [] \<and> str_in ''json'' (c_mimeType response)
      then loads_raises X (c_text response)
      else None)"

definition entry_error :: "pylib \<Rightarrow> pyraises \<Rightarrow> entry \<Rightarrow> exn option" where
  "entry_error L X e =
     (case urlparse_raises X (r_url (req e)) of
        Some x \<Rightarrow> Some x
      | None \<Rightarrow>
          if \<not> relevant L e then None
          else
            (case body_error X (req e) of
               Some x \<Rightarrow> Some x
             | None \<Rightarrow> example_error X (resp e)))"

fun first_error :: "pylib \<Rightarrow> pyraises \<Rightarrow> entry list \<Rightarrow> exn option" where
  "first_error L X [] = None"
| "first_error L X (e # es) =
     (case entry_error L X e of
        Some x \<Rightarrow> Some x
      | None \<Rightarrow> first_error L X es)"

text \<open>
  \<open>parse_har_file\<close>: the exception that loading or parsing raises, or the \<open>ServiceInfo\<close>
  that \<open>parse\<close> returns; \<open>None\<close> for a trace with an entry outside the typed reading, of
  which the model says nothing.
\<close>

definition parse_har_file ::
  "pylib \<Rightarrow> pyraises \<Rightarrow> world \<Rightarrow> string \<Rightarrow> (exn + ServiceInfo) option" where
  "parse_har_file L X w har_path =
     (case load L X w har_path of
        Inl e \<Rightarrow> Some (Inl e)
      | Inr entries \<Rightarrow>
          (case typed_entries entries of
             None \<Rightarrow> None
           | Some (Inl e) \<Rightarrow> Some (Inl e)
           | Some (Inr es) \<Rightarrow>
               (case first_error L X es of
                  Some e \<Rightarrow> Some (Inl e)
                | None \<Rightarrow> Some (Inr (parse L es)))))"

definition generate_mcp_server :: "genlib \<Rightarrow> ServiceInfo \<Rightarrow> string \<Rightarrow> string io" where
  "generate_mcp_server G service_info output_dir = generate G service_info output_dir"

text \<open>
  The arguments of \<open>create\<close>, and how a run ends: with the exit code that \<open>create_command\<close>
  returns, or with an exception that it does not catch. The first \<open>try\<close> catches
  \<open>FileNotFoundError\<close> and \<open>JSONDecodeError\<close> and nothing else; the second, around the
  generator, catches every exception. \<open>create_command\<close> is \<open>None\<close> where \<open>parse_har_file\<close> is.
\<close>

record create_args =
  har_file :: string
  name_arg :: "string option"
  output_arg :: "string option"

datatype outcome = Exit int | Uncaught exn

definition override_name :: "create_args \<Rightarrow> ServiceInfo \<Rightarrow> ServiceInfo" where
  "override_name args service_info =
     (case name_arg args of
        None \<Rightarrow> service_info
      | Some n \<Rightarrow>
          if n = [] then service_info
          else service_info\<lparr>s_name := (if startswith n ''iblai-'' then drop 6 n else n)\<rparr>)"

definition output_dir_of :: "genlib \<Rightarrow> create_args \<Rightarrow> string" where
  "output_dir_of G args =
     abspath G (case output_arg args of
                  None \<Rightarrow> ''.''
                | Some d \<Rightarrow> if d = [] then ''.'' else d)"

definition create_command ::
  "pylib \<Rightarrow> pyraises \<Rightarrow> genlib \<Rightarrow> create_args \<Rightarrow> world \<Rightarrow> (outcome \<times> world) option" where
  "create_command L X G args w =
     (case parse_har_file L X w (har_file args) of
        None \<Rightarrow> None
      | Some (Inl e) \<Rightarrow>
          if e = FileNotFoundError then Some (Exit 1, w)
          else if e = JSONDecodeError then Some (Exit 1, w)
          else Some (Uncaught e, w)
      | Some (Inr service_info) \<Rightarrow>
          (let service_info = override_name args service_info;
               output_dir = output_dir_of G args
           in case generate_mcp_server G service_info output_dir w of
                (Inl e, w') \<Rightarrow> Some (Exit 1, w')
              | (Inr server_dir, w') \<Rightarrow> Some (Exit 0, w')))"

section \<open>A model of the library functions, for the worked examples\<close>

definition scheme_chars :: string where
  "scheme_chars = ''abcdefghijklmnopqrstuvwxyzABCDEFGHIJKLMNOPQRSTUVWXYZ0123456789+-.''"

definition ascii_letters :: string where
  "ascii_letters = ''abcdefghijklmnopqrstuvwxyzABCDEFGHIJKLMNOPQRSTUVWXYZ''"

definition split_scheme :: "string \<Rightarrow> string \<times> string" where
  "split_scheme url =
     (let pre = takeWhile (\<lambda>c. c \<noteq> CHR '':'') url in
      if length pre < length url \<and> pre \<noteq> [] \<and> hd pre \<in> set ascii_letters \<and>
         list_all (\<lambda>c. c \<in> set scheme_chars) pre
      then (lower pre, drop (Suc (length pre)) url)
      else ([], url))"

definition split_netloc :: "string \<Rightarrow> string \<times> string" where
  "split_netloc url =
     (if take 2 url = ''//''
      then (takeWhile (\<lambda>c. c \<notin> set ''/?#'') (drop 2 url),
            dropWhile (\<lambda>c. c \<notin> set ''/?#'') (drop 2 url))
      else ([], url))"

definition urlparse_model :: "string \<Rightarrow> url_parts" where
  "urlparse_model url =
     (let (scheme, rest) = split_scheme url;
          (netloc, rest) = split_netloc rest;
          rest = takeWhile (\<lambda>c. c \<noteq> CHR ''#'') rest;
          path = takeWhile (\<lambda>c. c \<noteq> CHR ''?'') rest;
          query = drop (Suc (length path)) rest
      in \<lparr>u_scheme = scheme, u_netloc = netloc, u_path = path, u_query = query\<rparr>)"

function split_on :: "char \<Rightarrow> string \<Rightarrow> string list" where
  "split_on sep s =
     (let first = takeWhile (\<lambda>c. c \<noteq> sep) s in
      if length first < length s then first # split_on sep (drop (Suc (length first)) s)
      else [s])"
  by pat_completeness auto
termination
  by (relation "measure (\<lambda>(sep, s). length s)") auto

declare split_on.simps [simp del]

definition parse_qsl_model :: "string \<Rightarrow> (string \<times> string) list" where
  "parse_qsl_model qs =
     concat (map (\<lambda>name_value.
                    let n = takeWhile (\<lambda>c. c \<noteq> CHR ''='') name_value;
                        v = drop (Suc (length n)) name_value in
                    if v \<noteq> [] then [(n, v)] else [])
               (split_on CHR ''&'' qs))"

definition parse_qs_model :: "string \<Rightarrow> (string \<times> string list) list" where
  "parse_qs_model qs =
     fold (\<lambda>(n, v) d.
             case map_of d n of
               Some vs \<Rightarrow> dict_set n (vs @ [v]) d
             | None \<Rightarrow> dict_set n [v] d)
       (parse_qsl_model qs) []"

definition py :: "(string \<Rightarrow> json option) \<Rightarrow> (string \<Rightarrow> nat) \<Rightarrow> pylib" where
  "py loads hash =
     \<lparr>urlparse = urlparse_model, parse_qs = parse_qs_model, json_loads = loads,
      str_hash = hash\<rparr>"

definition get_request :: "string \<Rightarrow> header list \<Rightarrow> entry" where
  "get_request url hs =
     \<lparr>req = \<lparr>r_url = url, r_method = ''GET'', r_headers = hs, postData = None\<rparr>,
      resp = \<lparr>status = JInt 200, resp_headers = [], c_text = [], c_mimeType = []\<rparr>\<rparr>"

section \<open>Notions used to state the properties of the parse loop\<close>

text \<open>
  The aggregation key \<open>f"{method}:{base_url}{normalized_path}"\<close>, read off a stored endpoint
  and computed from an entry; and the endpoint that \<open>parse\<close> builds from an entry.
\<close>

definition endpoint_key :: "APIEndpoint \<Rightarrow> string" where
  "endpoint_key ep = e_method ep @ '':'' @ e_base_url ep @ e_path ep"

definition entry_key :: "pylib \<Rightarrow> entry \<Rightarrow> string" where
  "entry_key L e =
     (let parsed = urlparse L (r_url (req e)) in
      r_method (req e) @ '':'' @ (u_scheme parsed @ ''://'' @ u_netloc parsed)
        @ fst (extract_path_params (u_path parsed)))"

definition new_endpoint :: "pylib \<Rightarrow> entry \<Rightarrow> APIEndpoint" where
  "new_endpoint L e =
     (let request = req e; url = r_url request; parsed = urlparse L url;
          normalized_headers = normalize_headers (r_headers request) in
      \<lparr>e_method = r_method request,
       e_path = fst (extract_path_params (u_path parsed)),
       e_base_url = u_scheme parsed @ ''://'' @ u_netloc parsed,
       full_url = url,
       query_params = extract_query_params L url,
       path_params = snd (extract_path_params (u_path parsed)),
       e_headers = normalized_headers,
       request_body = extract_request_body L request,
       response_example = extract_response_example L (resp e),
       response_status = status (resp e),
       content_type =
         (case map_of normalized_headers ''Content-Type'' of
            Some v \<Rightarrow> v
          | None \<Rightarrow> ''application/json''),
       e_description = []\<rparr>)"

text \<open>
  The invariant of \<open>endpoints_map\<close>: its keys are distinct, and each is the key of the endpoint
  stored under it.
\<close>

definition keys_ok :: "(string \<times> APIEndpoint) list \<Rightarrow> bool" where
  "keys_ok m = (distinct (map fst m) \<and> (\<forall>(k, ep)\<in>set m. k = endpoint_key ep))"

text \<open>A name that \<open>_extract_query_params\<close> does not skip.\<close>

definition plain_name :: "string \<Rightarrow> bool" where
  "plain_name n = (\<not> startswith n ''_'' \<and> n \<notin> {''rsc'', ''callback'', ''jsonp''})"

definition params_plain :: "APIEndpoint \<Rightarrow> bool" where
  "params_plain ep = (\<forall>p\<in>set (path_params ep @ query_params ep). plain_name (p_name p))"

text \<open>The names of the properties that a generated input schema declares.\<close>

definition schema_property_names :: "json \<Rightarrow> string list" where
  "schema_property_names schema =
     (case jget schema ''properties'' of Some (JObj kvs) \<Rightarrow> map fst kvs | _ \<Rightarrow> [])"

section \<open>What truncation bounds\<close>

text \<open>
  \<open>chain_bounded n d\<close>: the mapping \<open>d\<close> has at most ten keys, every sequence among its
  values has at most two elements, and every mapping among its values is bounded in the
  same way with \<open>n - 1\<close>; with \<open>n = 0\<close> no value is a mapping. What lies inside a sequence
  is not looked at.
\<close>

primrec chain_bounded :: "nat \<Rightarrow> (string \<times> json) list \<Rightarrow> bool" where
  "chain_bounded 0 kvs =
     (length kvs \<le> 10 \<and>
      list_all (\<lambda>(k, v). case v of JObj d \<Rightarrow> False | JList xs \<Rightarrow> length xs \<le> 2 | _ \<Rightarrow> True) kvs)"
| "chain_bounded (Suc n) kvs =
     (length kvs \<le> 10 \<and>
      list_all (\<lambda>(k, v). case v of JObj d \<Rightarrow> chain_bounded n d | JList xs \<Rightarrow> length xs \<le> 2 | _ \<Rightarrow> True) kvs)"

definition numbered_keys :: "nat \<Rightarrow> (string \<times> json) list" where
  "numbered_keys n = map (\<lambda>i. (''k'' @ str_nat i, JInt (int i))) [0..<n]"

definition json_response :: "string \<Rightarrow> response" where
  "json_response body =
     \<lparr>status = JInt 200, resp_headers = [], c_text = body, c_mimeType = ''application/json''\<rparr>"

text \<open>
  Five objects nested in one another, \<open>{"a": {"b": {"c": {"d": {"e": 1}}}}}\<close>; and a
  \<open>json.loads\<close> for the worked examples that reads this text, and the text that holds the
  same value as the one element of a list.
\<close>

definition nested5 :: json where
  "nested5 =
     JObj [(''a'', JObj [(''b'', JObj [(''c'', JObj [(''d'', JObj [(''e'', JInt 1)])])])])]"

definition loads_nested :: "string \<Rightarrow> json option" where
  \<open>loads_nested =
     map_of [(''{"a": {"b": {"c": {"d": {"e": 1}}}}}'', nested5),
             (''{"items": [{"a": {"b": {"c": {"d": {"e": 1}}}}}]}'',
              JObj [(''items'', JList [nested5])])]\<close>

section \<open>Worked traces\<close>

text \<open>
  Traces for the worked examples: the same method and path on two hosts; one endpoint seen
  twice with different identifiers and query strings; a query string with the parameter
  names that are skipped. \<open>prefer_a\<close> and \<open>prefer_b\<close> are two hash functions, under which a
  set of the two hosts (or of their base URLs) is listed in the one and in the other order.
\<close>

definition two_hosts :: "entry list" where
  "two_hosts =
     [get_request ''https://a.example.com/api/items'' [],
      get_request ''https://b.example.com/api/items'' []]"

definition page_then_search :: "entry list" where
  "page_then_search =
     [get_request ''https://api.example.com/api/v1/courses/12/modules?page=1'' [],
      get_request ''https://api.example.com/api/v1/courses/77/modules?search=foo&page=2'' []]"

definition framework_params :: "entry list" where
  "framework_params =
     [get_request
        ''https://api.example.com/api/v1/items?_t=9&callback=cb&rsc=1&jsonp=x&page=1'' []]"

definition prefer_a :: "string \<Rightarrow> nat" where
  "prefer_a s = (if str_in ''//b.'' s \<or> startswith s ''b.'' then 1 else 0)"

definition prefer_b :: "string \<Rightarrow> nat" where
  "prefer_b s = (if str_in ''//a.'' s \<or> startswith s ''a.'' then 1 else 0)"

section \<open>Notions used to state that credentials do not reach the artifacts\<close>

text \<open>
  A header that \<open>_extract_auth_patterns\<close> recognizes by its name; two headers, and two
  entries, that differ at most in the values of such headers.
\<close>

definition auth_header :: "header \<Rightarrow> bool" where
  "auth_header h = (map_of AUTH_HEADERS (lower (h_name h)) \<noteq> None)"

definition same_but_credential :: "header \<Rightarrow> header \<Rightarrow> bool" where
  "same_but_credential h h' =
     (h_name h' = h_name h \<and> (auth_header h \<or> h_value h' = h_value h))"

definition same_but_credentials :: "entry \<Rightarrow> entry \<Rightarrow> bool" where
  "same_but_credentials e e' =
     (resp e' = resp e \<and> r_url (req e') = r_url (req e) \<and>
      r_method (req e') = r_method (req e) \<and> postData (req e') = postData (req e) \<and>
      list_all2 same_but_credential (r_headers (req e)) (r_headers (req e')))"

text \<open>
  Erasing from a \<open>ServiceInfo\<close> the fields that hold header values or depend on them: the
  stored headers and content type of every endpoint and the example value of every auth
  pattern.
\<close>

definition erase_endpoint :: "APIEndpoint \<Rightarrow> APIEndpoint" where
  "erase_endpoint ep = ep\<lparr>e_headers := [], content_type := []\<rparr>"

definition erase_auth :: "AuthPattern \<Rightarrow> AuthPattern" where
  "erase_auth a = a\<lparr>example_value := []\<rparr>"

definition erase :: "ServiceInfo \<Rightarrow> ServiceInfo" where
  "erase si =
     si\<lparr>auth_patterns := map erase_auth (auth_patterns si),
        endpoints := map erase_endpoint (endpoints si)\<rparr>"

definition erase_state :: "parse_state \<Rightarrow> parse_state" where
  "erase_state st =
     \<lparr>endpoints_map = map (\<lambda>(k, ep). (k, erase_endpoint ep)) (endpoints_map st),
      all_auth_patterns = map erase_auth (all_auth_patterns st),
      base_urls = base_urls st\<rparr>"

definition masked :: "AuthPattern \<Rightarrow> bool" where
  "masked a =
     (example_value a = ''Bearer <token>'' \<or> example_value a = ''<api_key>'' \<or>
      example_value a = ''<session_cookie>'')"

section \<open>Worked records for the classifier\<close>

text \<open>
  A request for a picture under an API path, with JSON announced in the request and in the
  response; and a request for a plain path whose response alone announces JSON.
\<close>

definition png_entry :: entry where
  "png_entry =
     \<lparr>req = \<lparr>r_url = ''https://api.example.com/api/v1/logo.PNG'', r_method = ''GET'',
             r_headers = [\<lparr>h_name = ''Accept'', h_value = ''application/json''\<rparr>],
             postData = None\<rparr>,
      resp = \<lparr>status = JInt 200,
              resp_headers = [\<lparr>h_name = ''Content-Type'', h_value = ''application/json''\<rparr>],
              c_text = ''{}'', c_mimeType = ''application/json''\<rparr>\<rparr>"

definition response_json_entry :: entry where
  "response_json_entry =
     \<lparr>req = \<lparr>r_url = ''https://example.com/data'', r_method = ''GET'',
             r_headers = [], postData = None\<rparr>,
      resp = \<lparr>status = JInt 200,
              resp_headers = [\<lparr>h_name = ''Content-Type'', h_value = ''application/json''\<rparr>],
              c_text = ''{}'', c_mimeType = ''application/json''\<rparr>\<rparr>"

section \<open>Worked inputs for the generator\<close>

text \<open>
  \<open>json.dumps\<close> without indentation, for strings of printable ASCII; a generator library
  with it; a world in which every path can be written, with an empty trace, a file that is
  not JSON and a directory; the same world with no path writable; library calls that never
  raise; and a trace of one record that sends a bearer credential.
\<close>

definition dumps_str :: "string \<Rightarrow> string" where
  \<open>dumps_str s =
     ''"'' @ concat (map (\<lambda>c. if c = CHR 0x22 \<or> c = CHR 0x5C then [CHR 0x5C, c] else [c]) s)
     @ ''"''\<close>

fun dumps_model :: "json \<Rightarrow> string" where
  "dumps_model JNull = ''null''"
| "dumps_model (JBool b) = (if b then ''true'' else ''false'')"
| "dumps_model (JInt i) = (if i < 0 then ''-'' else []) @ str_nat (nat \<bar>i\<bar>)"
| "dumps_model (JFloat s) = s"
| "dumps_model (JStr s) = dumps_str s"
| "dumps_model (JList xs) = ''['' @ join '', '' (map dumps_model xs) @ '']''"
| "dumps_model (JObj kvs) =
     ''{'' @ join '', '' (map (\<lambda>kv. dumps_str (fst kv) @ '': '' @ dumps_model (snd kv)) kvs)
     @ ''}''"

definition gen0 :: genlib where
  "gen0 = \<lparr>json_dumps = (\<lambda>indent. dumps_model), now_isoformat = ''2024-01-01T00:00:00'',
           abspath = (\<lambda>p. if startswith p ''/'' then p else ''/work/'' @ p)\<rparr>"

definition world0 :: world where
  "world0 = \<lparr>files = [''trace.har'' \<mapsto> ''{}'', ''bad.har'' \<mapsto> ''{not json''],
             read_error = [''traces'' \<mapsto> IsADirectoryError],
             can_write = (\<lambda>p. True)\<rparr>"

definition read_only :: "world \<Rightarrow> world" where
  "read_only w = w\<lparr>can_write := (\<lambda>p. False)\<rparr>"

definition no_raise :: pyraises where
  "no_raise = \<lparr>urlparse_raises = (\<lambda>url. None), loads_raises = (\<lambda>s. None)\<rparr>"

definition bearer_trace :: "string \<Rightarrow> entry list" where
  "bearer_trace secret =
     [get_request ''https://api.example.com/api/v1/courses/12/modules?page=1''
        [\<lparr>h_name = ''Authorization'', h_value = ''Bearer '' @ secret\<rparr>]]"

text \<open>
  Arguments of \<open>create\<close> for a trace file of the given path, and a library whose
  \<open>json.loads\<close> reads the text \<open>{}\<close> as the empty object and rejects every other text.
\<close>

definition demo_args :: "string \<Rightarrow> create_args" where
  "demo_args f = \<lparr>har_file = f, name_arg = Some ''iblai-demo'', output_arg = Some ''/out''\<rparr>"

definition py_json :: pylib where
  "py_json = py (map_of [(''{}'', JObj [])]) (\<lambda>_. 0)"

section \<open>Properties of auth pattern detection\<close>

lemma header_auth_patterns_mem:
  "h \<in> set hs \<Longrightarrow> map_of AUTH_HEADERS (lower (h_name h)) = Some t \<Longrightarrow>
   \<lparr>auth_type = t, header_name = h_name h,
    example_value = mask_value (h_value h), location = ''header''\<rparr>
   \<in> set (header_auth_patterns hs)"
  by (induction hs) (auto split: option.splits)

text \<open>
  Claim C10. Every header list holding a header whose name is \<open>Authorization\<close> in any
  letter case yields a pattern tagged \<open>bearer\<close> that carries the header's name as written;
  its example value is decided by the value's prefix alone, so a value that does not start
  with \<open>bearer\<close> and a space, such as a Basic credential, is tagged \<open>bearer\<close> and masked as
  \<open><api_key>\<close>.
\<close>

theorem authorization_always_tagged_bearer:
  assumes "h \<in> set headers" and "lower (h_name h) = ''authorization''"
  shows "\<lparr>auth_type = ''bearer'', header_name = h_name h,
          example_value =
            (if startswith (lower (h_value h)) ''bearer ''
             then ''Bearer <token>'' else ''<api_key>''),
          location = ''header''\<rparr>
         \<in> set (extract_auth_patterns headers)"
proof -
  have "map_of AUTH_HEADERS (lower (h_name h)) = Some ''bearer''"
    using assms(2) by (simp add: AUTH_HEADERS_def)
  from header_auth_patterns_mem [OF assms(1) this]
  show ?thesis
    by (simp add: extract_auth_patterns_def mask_value_def)
qed

theorem authorization_always_tagged_bearer_witness:
  "extract_auth_patterns [\<lparr>h_name = ''Authorization'', h_value = ''Basic dXNlcjpwdw==''\<rparr>]
   = [\<lparr>auth_type = ''bearer'', header_name = ''Authorization'',
       example_value = ''<api_key>'', location = ''header''\<rparr>]
   \<and> \<lparr>auth_type = ''bearer'', header_name = ''Authorization'',
       example_value = ''<api_key>'', location = ''header''\<rparr>
     \<in> set (extract_auth_patterns
         [\<lparr>h_name = ''Authorization'', h_value = ''Basic dXNlcjpwdw==''\<rparr>])"
proof -
  let ?h = "\<lparr>h_name = ''Authorization'', h_value = ''Basic dXNlcjpwdw==''\<rparr>"
  have n: "lower (h_name ?h) = ''authorization''"
    by (simp add: lower_def lower_char_def)
  have v: "\<not> startswith (lower (h_value ?h)) ''bearer ''"
    by (simp add: lower_def lower_char_def startswith_def)
  have m: "?h \<in> set [?h]" by simp
  have e: "extract_auth_patterns [?h]
        = [\<lparr>auth_type = ''bearer'', header_name = ''Authorization'',
            example_value = ''<api_key>'', location = ''header''\<rparr>]"
    by (simp add: extract_auth_patterns_def AUTH_HEADERS_def mask_value_def
        lower_def lower_char_def startswith_def)
  from authorization_always_tagged_bearer [OF m n] v e show ?thesis
    by simp
qed

section \<open>Properties of the record classifier\<close>

lemma header_has_json_iff:
  "header_has_json n hs \<longleftrightarrow>
   (\<exists>h\<in>set hs. lower (h_name h) = n \<and> str_in ''application/json'' (lower (h_value h)))"
  by (induction hs) auto

lemma relevant_request_only: "relevant L (e\<lparr>resp := r\<rparr>) = relevant L e"
  by (simp add: relevant_def)

lemma not_relevant_skip: "\<not> relevant L e \<Longrightarrow> process_entry L st e = st"
  by (auto simp: relevant_def process_entry_def Let_def split: if_splits)

lemma endpoints_parse: "endpoints (parse L es) = map snd (endpoints_map (parse_loop L es))"
  by (simp add: parse_def Let_def)

lemma relevant_iff:
  "relevant L e \<longleftrightarrow>
     (let p = lower (u_path (urlparse L (r_url (req e)))) in
      \<not> (\<exists>ext\<in>set STATIC_EXTENSIONS. endswith p ext) \<and>
      \<not> (\<exists>d\<in>set static_paths. str_in d p) \<and>
      (str_in ''/api/'' p \<or> str_in ''/v1/'' p \<or> str_in ''/v2/'' p \<or>
       (\<exists>h\<in>set (r_headers (req e)).
          (lower (h_name h) = ''accept'' \<or> lower (h_name h) = ''content-type'') \<and>
          str_in ''application/json'' (lower (h_value h)))))"
  unfolding relevant_def is_static_resource_def is_api_call_def Let_def
    header_has_json_iff list_ex_iff
  by auto

text \<open>
  Claim C6, as the code has it. With \<open>p\<close> the lower-cased path of the request URL, a record
  is processed exactly when \<open>p\<close> ends in no static extension, contains no static
  directory, and either contains \<open>/api/\<close>, \<open>/v1/\<close> or \<open>/v2/\<close> or a request header named
  \<open>Accept\<close> or \<open>Content-Type\<close> has \<open>application/json\<close> in its lower-cased value. The
  response plays no part in the decision. A record that is not processed leaves the state of
  the parse loop as it was, so a path ending in \<open>.png\<close> or \<open>.js\<close> adds no endpoint, whatever
  content types come with it.
\<close>

theorem classifier_reads_request_only:
  fixes L :: pylib and e :: entry
  defines "p \<equiv> lower (u_path (urlparse L (r_url (req e))))"
  shows "(relevant L e \<longleftrightarrow>
           \<not> (\<exists>ext\<in>set STATIC_EXTENSIONS. endswith p ext) \<and>
           \<not> (\<exists>d\<in>set static_paths. str_in d p) \<and>
           (str_in ''/api/'' p \<or> str_in ''/v1/'' p \<or> str_in ''/v2/'' p \<or>
            (\<exists>h\<in>set (r_headers (req e)).
               (lower (h_name h) = ''accept'' \<or> lower (h_name h) = ''content-type'') \<and>
               str_in ''application/json'' (lower (h_value h)))))
         \<and> relevant L (e\<lparr>resp := r\<rparr>) = relevant L e
         \<and> (\<not> relevant L e \<longrightarrow> process_entry L st e = st)
         \<and> (endswith p ''.png'' \<or> endswith p ''.js'' \<longrightarrow> process_entry L st e = st)"
proof -
  have a: "endswith p ''.png'' \<or> endswith p ''.js'' \<Longrightarrow> \<not> relevant L e"
    unfolding relevant_iff Let_def p_def [symmetric] by (auto simp: STATIC_EXTENSIONS_def)
  show ?thesis
    using a relevant_iff [of L e] relevant_request_only [where L = L and e = e and r = r]
      not_relevant_skip [of L e st]
    unfolding Let_def p_def [symmetric] by blast
qed

lemma png_path:
  "lower (u_path (urlparse (py loads hash) (r_url (req png_entry)))) = ''/api/v1/logo.png''"
  by (simp add: png_entry_def py_def urlparse_model_def split_scheme_def split_netloc_def
       lower_def lower_char_def scheme_chars_def ascii_letters_def)

theorem classifier_reads_request_only_witness:
  "endswith (lower (u_path (urlparse (py (\<lambda>_. None) (\<lambda>_. 0)) (r_url (req png_entry))))) ''.png''
   \<and> \<not> relevant (py (\<lambda>_. None) (\<lambda>_. 0)) png_entry
   \<and> endpoints (parse (py (\<lambda>_. None) (\<lambda>_. 0)) [png_entry]) = []"
proof -
  let ?L = "py (\<lambda>_. None) (\<lambda>_. 0)"
  let ?st = "\<lparr>endpoints_map = [], all_auth_patterns = [], base_urls = []\<rparr>"
  have e: "endswith (lower (u_path (urlparse ?L (r_url (req png_entry))))) ''.png''"
    unfolding png_path by (simp add: endswith_def)
  note c = classifier_reads_request_only [where L = ?L and e = png_entry and st = ?st]
  from c e have s: "process_entry ?L ?st png_entry = ?st"
    by blast
  from c e have n: "\<not> relevant ?L png_entry"
    by (auto simp: STATIC_EXTENSIONS_def)
  from s have "endpoints (parse ?L [png_entry]) = []"
    by (simp add: endpoints_parse parse_loop_def)
  with e n show ?thesis by simp
qed

text \<open>
  The claim as the specification words it also lets the response's \<open>Content-Type\<close> accept a
  record. The code does not: this record is no static resource, its response announces JSON,
  and it is rejected.
\<close>

theorem response_content_type_not_consulted:
  "\<not> is_static_resource (py (\<lambda>_. None) (\<lambda>_. 0)) (r_url (req response_json_entry))
   \<and> header_has_json ''content-type'' (resp_headers (resp response_json_entry))
   \<and> \<not> relevant (py (\<lambda>_. None) (\<lambda>_. 0)) response_json_entry
   \<and> endpoints (parse (py (\<lambda>_. None) (\<lambda>_. 0)) [response_json_entry]) = []"
  by code_simp

section \<open>Properties of response truncation\<close>

lemma truncate_keys: "0 < n \<Longrightarrow> map fst (truncate_response d n) = take 10 (map fst d)"
  by (subst truncate_response.simps) (simp add: take_map case_prod_beta comp_def)

lemma truncate_bounded: "0 \<le> n \<Longrightarrow> chain_bounded (nat n) (truncate_response d n)"
proof (induction d n rule: truncate_response.induct)
  case (1 data max_depth)
  show ?case
  proof (cases "max_depth \<le> 0")
    case True
    with 1(2) have "max_depth = 0" by simp
    then show ?thesis by (subst truncate_response.simps) simp
  next
    case False
    then obtain m where m: "nat max_depth = Suc m" and m': "nat (max_depth - 1) = m"
      by (cases "nat max_depth") auto
    have ih: "\<And>k d. (k, JObj d) \<in> set (take 10 data) \<Longrightarrow>
                chain_bounded m (truncate_response d (max_depth - 1))"
      using 1(1) False m' by force
    show ?thesis
      unfolding m
      apply (subst truncate_response.simps)
      using False ih
      by (auto simp: list_all_iff split: json.splits)
  qed
qed

lemma truncate_list_values:
  "0 < n \<Longrightarrow> (k, JList xs) \<in> set (take 10 d) \<Longrightarrow>
   (k, JList (take 2 xs)) \<in> set (truncate_response d n)"
  by (subst truncate_response.simps) force

lemma truncate_nested:
  "truncate_response [(k0, JObj [(k1, JObj [(k2, JObj d3)])])] 3
   = [(k0, JObj [(k1, JObj [(k2, JObj [(''...'', JStr ''truncated'')])])])]"
  by (simp add: truncate_response.simps)

lemma response_example_object:
  "c_text r \<noteq> [] \<Longrightarrow> str_in ''json'' (c_mimeType r) \<Longrightarrow>
   json_loads L (c_text r) = Some (JObj d) \<Longrightarrow>
   extract_response_example L r = JObj (truncate_response d 3)"
  by (simp add: extract_response_example_def)

lemma response_example_list:
  "c_text r \<noteq> [] \<Longrightarrow> str_in ''json'' (c_mimeType r) \<Longrightarrow>
   json_loads L (c_text r) = Some (JList xs) \<Longrightarrow>
   extract_response_example L r = JList (take 2 xs)"
  by (simp add: extract_response_example_def)

text \<open>
  So the mappings that \<open>_truncate_response\<close> reaches are bounded: with depth 3 it reaches
  the top-level mapping and the mappings that are values of a mapping it has reached, three
  levels down; each keeps its first ten keys, and a sequence that is a value of one of them
  its first two elements.
\<close>

lemma truncation_bounds_mapping_chains:
  "chain_bounded 3 (truncate_response d 3)
   \<and> map fst (truncate_response d 3) = take 10 (map fst d)"
  using truncate_bounded [of 3 d] truncate_keys [of 3 d] by simp

text \<open>
  Claim C4. \<open>_truncate_response\<close> never enters a sequence: it cuts a sequence to two
  elements and returns these as they are, and \<open>_extract_response_example\<close> does the same
  with a top-level sequence. The five nested objects of the claim, as the response itself,
  give an example with the \<open>truncated\<close> marker at depth 3; the same five objects as the
  element of a list come back whole, six objects deep, with no marker. In the same way an
  object of 20 keys gives an example of exactly its first 10 keys, and an object of 11
  keys that is the element of a list keeps all 11.
\<close>

theorem truncation_skips_sequence_elements:
  \<open>extract_response_example (py loads_nested (\<lambda>_. 0))
      (json_response ''{"items": [{"a": {"b": {"c": {"d": {"e": 1}}}}}]}'')
     = JObj [(''items'',
         JList [JObj [(''a'', JObj [(''b'', JObj [(''c'', JObj [(''d'',
                  JObj [(''e'', JInt 1)])])])])]])]
   \<and> extract_response_example (py loads_nested (\<lambda>_. 0))
        (json_response ''{"a": {"b": {"c": {"d": {"e": 1}}}}}'')
     = JObj [(''a'', JObj [(''b'', JObj [(''c'', JObj [(''...'', JStr ''truncated'')])])])]
   \<and> extract_response_example
        (py (map_of [(''B'', JObj (numbered_keys 20))]) (\<lambda>_. 0)) (json_response ''B'')
     = JObj (numbered_keys 10)
   \<and> extract_response_example
        (py (map_of [(''B'', JObj [(''items'', JList [JObj (numbered_keys 11)])])]) (\<lambda>_. 0))
        (json_response ''B'')
     = JObj [(''items'', JList [JObj (numbered_keys 11)])]
   \<and> length (numbered_keys 20) = 20 \<and> length (numbered_keys 10) = 10
   \<and> length (numbered_keys 11) = 11\<close>
  by code_simp

section \<open>Properties of the path normalizer\<close>

text \<open>
  Claim C3. The numeric matches are found on the path before any numeric replacement, and
  each replacement is made at the offsets of its match in that earlier path. The first
  replacement changes the length of the path, so from the second numeric segment on the
  placeholder lands at the wrong place: \<open>/a/12/b/34\<close> becomes \<open>/a/{id}/{id_1}34\<close> and not
  \<open>/a/{id}/b/{id_1}\<close>. With one numeric segment the result is as claimed.
\<close>

theorem second_numeric_segment_misplaced:
  "extract_path_params ''/a/12/b/34''
     = (''/a/{id}/{id_1}34'',
        [path_param ''id'' ''12'' ''Numeric identifier'',
         path_param ''id_1'' ''34'' ''Numeric identifier''])
   \<and> extract_path_params ''/courses/12/modules''
     = (''/courses/{id}/modules'', [path_param ''id'' ''12'' ''Numeric identifier''])
   \<and> extract_path_params ''/courses/77/modules''
     = (''/courses/{id}/modules'', [path_param ''id'' ''77'' ''Numeric identifier''])"
  by code_simp

section \<open>Properties of the parse loop\<close>

lemma map_fst_dict_set:
  "map fst (dict_set k v kvs) = (if k \<in> fst ` set kvs then map fst kvs else map fst kvs @ [k])"
  by (induction kvs) (force simp: image_iff)+

lemma map_of_dict_set: "map_of (dict_set k v kvs) = (map_of kvs)(k \<mapsto> v)"
  by (induction kvs) (auto simp: fun_eq_iff)

lemma set_dict_set: "set (dict_set k v kvs) \<subseteq> insert (k, v) (set kvs)"
  by (induction kvs) (auto split: if_splits)

lemma distinct_dict_set:
  "distinct (map fst kvs) \<Longrightarrow> distinct (map fst (dict_set k v kvs))"
  by (simp add: map_fst_dict_set)

lemma process_entry_relevant:
  "relevant L e \<Longrightarrow>
   process_entry L st e =
     \<lparr>endpoints_map =
        (case map_of (endpoints_map st) (entry_key L e) of
           Some existing \<Rightarrow>
             dict_set (entry_key L e)
               (merge_query_params existing (extract_query_params L (r_url (req e))))
               (endpoints_map st)
         | None \<Rightarrow> dict_set (entry_key L e) (new_endpoint L e) (endpoints_map st)),
      all_auth_patterns = all_auth_patterns st @ extract_auth_patterns (r_headers (req e)),
      base_urls = base_urls st
        @ [u_scheme (urlparse L (r_url (req e))) @ ''://''
           @ u_netloc (urlparse L (r_url (req e)))]\<rparr>"
  by (auto simp: relevant_def process_entry_def entry_key_def new_endpoint_def Let_def
      split: if_splits prod.splits option.splits)

lemma endpoint_key_new: "endpoint_key (new_endpoint L e) = entry_key L e"
  by (simp add: endpoint_key_def new_endpoint_def entry_key_def Let_def)

lemma endpoint_key_merge: "endpoint_key (merge_query_params ep qps) = endpoint_key ep"
  by (simp add: endpoint_key_def merge_query_params_def Let_def)

lemma keys_ok_dict_set:
  assumes "keys_ok m" and "k = endpoint_key ep"
  shows "keys_ok (dict_set k ep m)"
proof -
  have "distinct (map fst (dict_set k ep m))"
    using assms(1) by (simp add: keys_ok_def distinct_dict_set)
  moreover have "\<forall>(k', ep')\<in>set (dict_set k ep m). k' = endpoint_key ep'"
    using assms set_dict_set [of k ep m] unfolding keys_ok_def by blast
  ultimately show ?thesis
    by (simp add: keys_ok_def)
qed

lemma endpoints_map_step:
  "relevant L e \<Longrightarrow>
   endpoints_map (process_entry L st e) =
     (case map_of (endpoints_map st) (entry_key L e) of
        Some existing \<Rightarrow>
          dict_set (entry_key L e)
            (merge_query_params existing (extract_query_params L (r_url (req e))))
            (endpoints_map st)
      | None \<Rightarrow> dict_set (entry_key L e) (new_endpoint L e) (endpoints_map st))"
  by (simp add: process_entry_relevant)

lemma keys_ok_step:
  assumes ok: "keys_ok (endpoints_map st)"
  shows "keys_ok (endpoints_map (process_entry L st e))"
proof (cases "relevant L e")
  case False
  with ok show ?thesis by (simp add: not_relevant_skip)
next
  case True
  show ?thesis
  proof (cases "map_of (endpoints_map st) (entry_key L e)")
    case None
    have "keys_ok (dict_set (entry_key L e) (new_endpoint L e) (endpoints_map st))"
      using ok by (rule keys_ok_dict_set) (simp add: endpoint_key_new)
    with True None show ?thesis
      by (simp add: endpoints_map_step)
  next
    case (Some existing)
    then have "(entry_key L e, existing) \<in> set (endpoints_map st)"
      by (rule map_of_SomeD)
    with ok have "entry_key L e = endpoint_key existing"
      unfolding keys_ok_def by blast
    then have "entry_key L e
        = endpoint_key (merge_query_params existing (extract_query_params L (r_url (req e))))"
      by (simp add: endpoint_key_merge)
    with ok have "keys_ok (dict_set (entry_key L e)
        (merge_query_params existing (extract_query_params L (r_url (req e))))
        (endpoints_map st))"
      by (rule keys_ok_dict_set)
    with True Some show ?thesis
      by (simp add: endpoints_map_step)
  qed
qed

lemma keys_ok_foldl:
  "keys_ok (endpoints_map st) \<Longrightarrow> keys_ok (endpoints_map (foldl (process_entry L) st es))"
  by (induction es arbitrary: st) (auto simp: keys_ok_step)

lemma keys_ok_parse_loop: "keys_ok (endpoints_map (parse_loop L es))"
  unfolding parse_loop_def by (rule keys_ok_foldl) (simp add: keys_ok_def)

lemma distinct_map_comp: "distinct (map (g \<circ> h) xs) \<Longrightarrow> distinct (map h xs)"
  by (induction xs) auto

text \<open>
  Claim C2, as the code has it. The endpoints of a parsed trace have pairwise different
  aggregation keys, hence no two of them share method, base URL and normalized path all
  three: a repeated observation of the same key merges into the endpoint already there.
\<close>

theorem endpoint_keys_unique:
  "distinct (map endpoint_key (endpoints (parse L es)))
   \<and> distinct (map (\<lambda>ep. (e_method ep, e_base_url ep, e_path ep)) (endpoints (parse L es)))"
proof -
  let ?m = "endpoints_map (parse_loop L es)"
  have ok: "keys_ok ?m" by (rule keys_ok_parse_loop)
  then have eq: "map (endpoint_key \<circ> snd) ?m = map fst ?m"
    unfolding map_eq_conv by (auto simp: keys_ok_def)
  have "distinct (map fst ?m)"
    using ok by (simp add: keys_ok_def)
  then have "distinct (map (endpoint_key \<circ> snd) ?m)"
    by (simp only: eq)
  then have d: "distinct (map endpoint_key (endpoints (parse L es)))"
    by (simp add: endpoints_parse)
  have "endpoint_key = (\<lambda>(m, b, p). m @ '':'' @ b @ p) \<circ> (\<lambda>ep. (e_method ep, e_base_url ep, e_path ep))"
    by (simp add: fun_eq_iff endpoint_key_def)
  then have "distinct (map ((\<lambda>(m, b, p). m @ '':'' @ b @ p)
      \<circ> (\<lambda>ep. (e_method ep, e_base_url ep, e_path ep))) (endpoints (parse L es)))"
    using d by simp
  then have "distinct (map (\<lambda>ep. (e_method ep, e_base_url ep, e_path ep))
      (endpoints (parse L es)))"
    by (rule distinct_map_comp)
  with d show ?thesis by simp
qed

lemma merge_step:
  assumes "relevant L e" and "map_of (endpoints_map st) (entry_key L e) = Some existing"
  shows "endpoints_map (process_entry L st e) =
           dict_set (entry_key L e)
             (existing\<lparr>query_params := query_params existing @
                filter (\<lambda>p. p_name p \<notin> set (map p_name (query_params existing)))
                  (extract_query_params L (r_url (req e)))\<rparr>)
             (endpoints_map st)"
  using assms by (simp add: endpoints_map_step merge_query_params_def)

lemma step_keeps_first:
  assumes "map_of (endpoints_map st) k = Some e0"
  shows "\<exists>extra. map_of (endpoints_map (process_entry L st e)) k
            = Some (e0\<lparr>query_params := query_params e0 @ extra\<rparr>)
          \<and> (\<forall>p\<in>set extra. p_name p \<notin> set (map p_name (query_params e0)))"
proof (cases "relevant L e \<and> entry_key L e = k")
  case True
  let ?new = "filter (\<lambda>p. p_name p \<notin> set (map p_name (query_params e0)))
                (extract_query_params L (r_url (req e)))"
  have "map_of (endpoints_map (process_entry L st e)) k
          = Some (e0\<lparr>query_params := query_params e0 @ ?new\<rparr>)"
    using True assms by (simp add: merge_step map_of_dict_set)
  moreover have "\<forall>p\<in>set ?new. p_name p \<notin> set (map p_name (query_params e0))"
    by simp
  ultimately show ?thesis by blast
next
  case False
  have "map_of (endpoints_map (process_entry L st e)) k = Some e0"
  proof (cases "relevant L e")
    case False
    with assms show ?thesis by (simp add: not_relevant_skip)
  next
    case True
    with \<open>\<not> (relevant L e \<and> entry_key L e = k)\<close> have "entry_key L e \<noteq> k" by simp
    with True assms show ?thesis
      by (simp add: endpoints_map_step map_of_dict_set split: option.splits)
  qed
  then have "map_of (endpoints_map (process_entry L st e)) k
               = Some (e0\<lparr>query_params := query_params e0 @ []\<rparr>)
             \<and> (\<forall>p\<in>set []. p_name p \<notin> set (map p_name (query_params e0)))"
    by simp
  then show ?thesis by blast
qed

lemma foldl_keeps_first:
  "map_of (endpoints_map st) k = Some e0 \<Longrightarrow>
   \<exists>extra. map_of (endpoints_map (foldl (process_entry L) st es)) k
            = Some (e0\<lparr>query_params := query_params e0 @ extra\<rparr>)
          \<and> (\<forall>p\<in>set extra. p_name p \<notin> set (map p_name (query_params e0)))"
proof (induction es arbitrary: st e0)
  case Nil
  then have "map_of (endpoints_map (foldl (process_entry L) st [])) k
               = Some (e0\<lparr>query_params := query_params e0 @ []\<rparr>)
             \<and> (\<forall>p\<in>set []. p_name p \<notin> set (map p_name (query_params e0)))"
    by simp
  then show ?case by blast
next
  case (Cons e es)
  from step_keeps_first [OF Cons.prems, of L e]
  obtain x1 where s1: "map_of (endpoints_map (process_entry L st e)) k
            = Some (e0\<lparr>query_params := query_params e0 @ x1\<rparr>)"
    and n1: "\<forall>p\<in>set x1. p_name p \<notin> set (map p_name (query_params e0))"
    by blast
  from Cons.IH [OF s1]
  obtain x2 where s2: "map_of (endpoints_map (foldl (process_entry L) (process_entry L st e) es)) k
            = Some (e0\<lparr>query_params := query_params e0 @ x1 @ x2\<rparr>)"
    and n2: "\<forall>p\<in>set x2. p_name p \<notin> set (map p_name (query_params e0 @ x1))"
    by auto
  have "map_of (endpoints_map (foldl (process_entry L) st (e # es))) k
            = Some (e0\<lparr>query_params := query_params e0 @ (x1 @ x2)\<rparr>)"
    using s2 by simp
  moreover have "\<forall>p\<in>set (x1 @ x2). p_name p \<notin> set (map p_name (query_params e0))"
    using n1 n2 by auto
  ultimately show ?case by blast
qed

text \<open>
  Claim C5. When the key of a processed record is already in \<open>endpoints_map\<close> with endpoint
  \<open>existing\<close>, the loop stores under that key \<open>existing\<close> with its query parameters followed
  by those parameters of the record whose names \<open>existing\<close> does not have yet; no other field
  changes, no key is added or moved, and every other key keeps its endpoint. Hence, however
  many records follow, an endpoint once stored keeps all its fields and its query
  parameters as a prefix, and what is appended carries names it did not have.
\<close>

theorem merge_adds_only_new_query_params:
  "(relevant L e \<and> map_of (endpoints_map st) (entry_key L e) = Some existing \<longrightarrow>
      endpoints_map (process_entry L st e) =
        dict_set (entry_key L e)
          (existing\<lparr>query_params := query_params existing @
             filter (\<lambda>p. p_name p \<notin> set (map p_name (query_params existing)))
               (extract_query_params L (r_url (req e)))\<rparr>)
          (endpoints_map st)
      \<and> map fst (endpoints_map (process_entry L st e)) = map fst (endpoints_map st)
      \<and> (\<forall>k. k \<noteq> entry_key L e \<longrightarrow>
            map_of (endpoints_map (process_entry L st e)) k = map_of (endpoints_map st) k))
   \<and> (map_of (endpoints_map st) k = Some e0 \<longrightarrow>
        (\<exists>extra. map_of (endpoints_map (foldl (process_entry L) st es)) k
                    = Some (e0\<lparr>query_params := query_params e0 @ extra\<rparr>)
                \<and> (\<forall>p\<in>set extra. p_name p \<notin> set (map p_name (query_params e0)))))"
proof -
  have a: "endpoints_map (process_entry L st e) =
        dict_set (entry_key L e)
          (existing\<lparr>query_params := query_params existing @
             filter (\<lambda>p. p_name p \<notin> set (map p_name (query_params existing)))
               (extract_query_params L (r_url (req e)))\<rparr>)
          (endpoints_map st)
      \<and> map fst (endpoints_map (process_entry L st e)) = map fst (endpoints_map st)
      \<and> (\<forall>k. k \<noteq> entry_key L e \<longrightarrow>
            map_of (endpoints_map (process_entry L st e)) k = map_of (endpoints_map st) k)"
    if r: "relevant L e" and m: "map_of (endpoints_map st) (entry_key L e) = Some existing"
  proof -
    note s = merge_step [OF r m]
    have "entry_key L e \<in> fst ` set (endpoints_map st)"
      using m by (metis domI dom_map_of_conv_image_fst)
    then have "map fst (endpoints_map (process_entry L st e)) = map fst (endpoints_map st)"
      unfolding s by (simp add: map_fst_dict_set)
    moreover have "\<forall>k. k \<noteq> entry_key L e \<longrightarrow>
            map_of (endpoints_map (process_entry L st e)) k = map_of (endpoints_map st) k"
      unfolding s by (simp add: map_of_dict_set)
    ultimately show ?thesis using s by simp
  qed
  show ?thesis
    using a foldl_keeps_first [of st k e0 L es] by blast
qed

text \<open>
  Method and normalized path alone do not identify an endpoint: the base URL is part of the
  key, so the same method and path seen on two hosts give two endpoints.
\<close>

theorem same_method_and_path_on_two_hosts:
  "map (\<lambda>ep. (e_method ep, e_base_url ep, e_path ep)) (endpoints (parse (py (\<lambda>_. None) (\<lambda>_. 0)) two_hosts))
     = [(''GET'', ''https://a.example.com'', ''/api/items''),
        (''GET'', ''https://b.example.com'', ''/api/items'')]
   \<and> \<not> distinct (map (\<lambda>ep. (e_method ep, e_path ep))
         (endpoints (parse (py (\<lambda>_. None) (\<lambda>_. 0)) two_hosts)))"
  by code_simp

lemma st0_step:
  "relevant L e \<Longrightarrow>
   endpoints_map (process_entry L \<lparr>endpoints_map = [], all_auth_patterns = [], base_urls = []\<rparr> e)
     = [(entry_key L e, new_endpoint L e)]"
  by (simp add: endpoints_map_step)

text \<open>
  The worked example: \<open>?page=1\<close> on \<open>/courses/12/modules\<close>, then \<open>?search=foo&page=2\<close> on
  \<open>/courses/77/modules\<close>, give one endpoint with \<open>page\<close> (example value \<open>1\<close>) and \<open>search\<close>.
\<close>

theorem merge_adds_only_new_query_params_witness:
  "map (\<lambda>ep. (e_path ep, map (\<lambda>p. (p_name p, p_example_value p)) (query_params ep),
              map p_name (path_params ep)))
     (endpoints (parse (py (\<lambda>_. None) (\<lambda>_. 0)) page_then_search))
   = [(''/api/v1/courses/{id}/modules'',
       [(''page'', Some ''1''), (''search'', Some ''foo'')], [''id''])]"
proof -
  let ?L = "py (\<lambda>_. None) (\<lambda>_. 0)"
  let ?e1 = "get_request ''https://api.example.com/api/v1/courses/12/modules?page=1'' []"
  let ?e2 = "get_request
               ''https://api.example.com/api/v1/courses/77/modules?search=foo&page=2'' []"
  let ?st0 = "\<lparr>endpoints_map = [], all_auth_patterns = [], base_urls = []\<rparr>"
  let ?st1 = "process_entry ?L ?st0 ?e1"
  have r1: "relevant ?L ?e1" by code_simp
  have r2: "relevant ?L ?e2" by code_simp
  have k: "entry_key ?L ?e2 = entry_key ?L ?e1" by code_simp
  have m: "map_of (endpoints_map ?st1) (entry_key ?L ?e2) = Some (new_endpoint ?L ?e1)"
    by (simp add: st0_step [OF r1] k)
  from merge_adds_only_new_query_params
    [where L = ?L and e = ?e2 and st = ?st1 and existing = "new_endpoint ?L ?e1"] r2 m
  have eq: "endpoints_map (process_entry ?L ?st1 ?e2) =
        dict_set (entry_key ?L ?e2)
          ((new_endpoint ?L ?e1)\<lparr>query_params := query_params (new_endpoint ?L ?e1) @
             filter (\<lambda>p. p_name p \<notin> set (map p_name (query_params (new_endpoint ?L ?e1))))
               (extract_query_params ?L (r_url (req ?e2)))\<rparr>)
          (endpoints_map ?st1)"
    by blast
  have v: "map (\<lambda>ep. (e_path ep, map (\<lambda>p. (p_name p, p_example_value p)) (query_params ep),
              map p_name (path_params ep)))
            (map snd (dict_set (entry_key ?L ?e2)
          ((new_endpoint ?L ?e1)\<lparr>query_params := query_params (new_endpoint ?L ?e1) @
             filter (\<lambda>p. p_name p \<notin> set (map p_name (query_params (new_endpoint ?L ?e1))))
               (extract_query_params ?L (r_url (req ?e2)))\<rparr>)
          [(entry_key ?L ?e1, new_endpoint ?L ?e1)]))
        = [(''/api/v1/courses/{id}/modules'',
            [(''page'', Some ''1''), (''search'', Some ''foo'')], [''id''])]"
    by code_simp
  show ?thesis
    unfolding endpoints_parse parse_loop_def page_then_search_def
    using eq v by (simp add: st0_step [OF r1])
qed

lemma query_params_names:
  "map p_name (extract_query_params L url)
     = filter (\<lambda>n. \<not> (startswith n ''_'' \<or> n \<in> {''rsc'', ''callback'', ''jsonp''}))
         (map fst (parse_qs L (u_query (urlparse L url))))"
  by (simp add: extract_query_params_def Let_def filter_map comp_def case_prod_unfold)

lemma query_params_plain:
  "p \<in> set (extract_query_params L url) \<Longrightarrow> plain_name (p_name p)"
proof -
  assume "p \<in> set (extract_query_params L url)"
  then have "p_name p \<in> set (map p_name (extract_query_params L url))" by simp
  then show ?thesis unfolding query_params_names by (simp add: plain_name_def)
qed

lemma uuid_loop_names:
  "p \<in> set (snd (uuid_loop i gs acc)) \<Longrightarrow>
   p \<in> set (snd acc) \<or> p_name p = ''id'' \<or> (\<exists>j. p_name p = ''uuid_'' @ str_nat j)"
proof (induction gs arbitrary: i acc)
  case Nil
  then show ?case by simp
next
  case (Cons g gs)
  obtain np ps where acc: "acc = (np, ps)" by (cases acc)
  from Cons.prems Cons.IH show ?case
    unfolding acc by (fastforce simp: Let_def path_param_def split: if_splits)
qed

lemma numeric_loop_names:
  "p \<in> set (snd (numeric_loop i ms acc)) \<Longrightarrow>
   p \<in> set (snd acc) \<or> p_name p = ''id'' \<or> (\<exists>j. p_name p = ''id_'' @ str_nat j)"
proof (induction ms arbitrary: i acc)
  case Nil
  then show ?case by simp
next
  case (Cons m ms)
  obtain np ps where acc: "acc = (np, ps)" by (cases acc)
  obtain a b g where m: "m = (a, b, g)" by (cases m)
  from Cons.prems Cons.IH show ?case
    unfolding acc m by (fastforce simp: Let_def path_param_def split: if_splits)
qed

lemma path_params_plain:
  assumes "p \<in> set (snd (extract_path_params path))"
  shows "plain_name (p_name p)"
proof -
  obtain np ps where u: "uuid_loop 0 (uuid_finditer path) (path, []) = (np, ps)"
    by (cases "uuid_loop 0 (uuid_finditer path) (path, [])")
  from assms have "p \<in> set (snd (numeric_loop 0 (numeric_finditer 0 np) (np, ps)))"
    by (simp add: extract_path_params_def u)
  then have "p \<in> set ps \<or> p_name p = ''id'' \<or> (\<exists>j. p_name p = ''id_'' @ str_nat j)"
    using numeric_loop_names by fastforce
  moreover have "p \<in> set ps \<Longrightarrow> p_name p = ''id'' \<or> (\<exists>j. p_name p = ''uuid_'' @ str_nat j)"
    using uuid_loop_names [of p 0 "uuid_finditer path" "(path, [])"] u by simp
  ultimately show ?thesis
    by (auto simp: plain_name_def startswith_def)
qed

lemma params_plain_new: "params_plain (new_endpoint L e)"
  using path_params_plain query_params_plain
  by (auto simp: params_plain_def new_endpoint_def Let_def)

lemma params_plain_merge:
  "params_plain ep \<Longrightarrow> params_plain (merge_query_params ep (extract_query_params L url))"
  using query_params_plain
  by (auto simp: params_plain_def merge_query_params_def Let_def)

lemma params_plain_dict_set:
  assumes "\<forall>(k, ep)\<in>set m. params_plain ep" and "params_plain v"
  shows "\<forall>(k, ep)\<in>set (dict_set key v m). params_plain ep"
  using assms set_dict_set [of key v m] by blast

lemma params_plain_step:
  assumes ok: "\<forall>(k, ep)\<in>set (endpoints_map st). params_plain ep"
  shows "\<forall>(k, ep)\<in>set (endpoints_map (process_entry L st e)). params_plain ep"
proof (cases "relevant L e")
  case False
  with ok show ?thesis by (simp add: not_relevant_skip)
next
  case True
  show ?thesis
  proof (cases "map_of (endpoints_map st) (entry_key L e)")
    case None
    with True show ?thesis
      using params_plain_dict_set [OF ok params_plain_new]
      by (simp add: endpoints_map_step)
  next
    case (Some existing)
    then have "(entry_key L e, existing) \<in> set (endpoints_map st)"
      by (rule map_of_SomeD)
    with ok have "params_plain existing" by blast
    then have "params_plain (merge_query_params existing (extract_query_params L (r_url (req e))))"
      by (rule params_plain_merge)
    with True Some show ?thesis
      using params_plain_dict_set [OF ok]
      by (simp add: endpoints_map_step)
  qed
qed

lemma params_plain_foldl:
  "\<forall>(k, ep)\<in>set (endpoints_map st). params_plain ep \<Longrightarrow>
   \<forall>(k, ep)\<in>set (endpoints_map (foldl (process_entry L) st es)). params_plain ep"
proof (induction es arbitrary: st)
  case Nil
  then show ?case by simp
next
  case (Cons e es)
  from Cons.IH [OF params_plain_step [OF Cons.prems]] show ?case by simp
qed

lemma keys_dict_set: "fst ` set (dict_set k v m) = insert k (fst ` set m)"
proof -
  have "set (map fst (dict_set k v m)) = insert k (set (map fst m))"
    unfolding map_fst_dict_set by auto
  then show ?thesis by simp
qed

lemma fold_dict_set_names:
  "set (map fst (fold (\<lambda>param d. dict_set (p_name param) (f param) d) ps acc))
   = set (map fst acc) \<union> set (map p_name ps)"
  by (induction ps arbitrary: acc) (simp_all add: keys_dict_set)

lemma param_schema_names:
  "set (schema_property_names (generate_param_schema ps)) = set (map p_name ps)"
  using fold_dict_set_names [of param_prop ps "[]"]
  by (simp add: schema_property_names_def generate_param_schema_def Let_def)

lemma param_schema_cases:
  "generate_param_schema ps = JObj [] \<or>
   (\<exists>props rest. generate_param_schema ps
       = JObj ((''type'', JStr ''object'') # (''properties'', JObj props) # rest))"
  by (simp add: generate_param_schema_def Let_def)

lemma input_schema_names:
  "set (schema_property_names (input_schema ep))
   \<subseteq> insert ''body'' (set (map p_name (path_params ep @ query_params ep)))"
proof -
  let ?ps = "path_params ep @ query_params ep"
  let ?s = "generate_param_schema ?ps"
  have n: "set (schema_property_names ?s) = set (map p_name ?ps)"
    by (rule param_schema_names)
  have add: "set (schema_property_names
       (let schema = (case jget ?s ''properties'' of
                        None \<Rightarrow> jset ?s ''properties'' (JObj [])
                      | Some _ \<Rightarrow> ?s);
            properties = (case jget schema ''properties'' of Some p \<Rightarrow> p | None \<Rightarrow> JObj [])
        in jset schema ''properties'' (jset properties ''body'' b)))
     \<subseteq> insert ''body'' (set (map p_name ?ps))" for b
  proof -
    from param_schema_cases [of ?ps] show ?thesis
    proof
      assume e: "?s = JObj []"
      with n have "set (map p_name ?ps) = {}"
        by (simp add: schema_property_names_def)
      then show ?thesis
        unfolding e by (simp add: schema_property_names_def Let_def)
    next
      assume "\<exists>props rest. ?s = JObj ((''type'', JStr ''object'') # (''properties'', JObj props) # rest)"
      then obtain props rest where
        e: "?s = JObj ((''type'', JStr ''object'') # (''properties'', JObj props) # rest)"
        by blast
      from n have "set (map fst props) = set (map p_name ?ps)"
        unfolding e by (simp add: schema_property_names_def)
      then show ?thesis
        unfolding e
        by (simp add: schema_property_names_def Let_def keys_dict_set)
    qed
  qed
  show ?thesis
    unfolding input_schema_def Let_def
    using n add [unfolded Let_def]
    by (auto split: option.splits)
qed

text \<open>
  Claim C9. The query parameters extracted from a URL are those of \<open>parse_qs\<close>, in order,
  without the names that start with an underscore and without \<open>rsc\<close>, \<open>callback\<close> and
  \<open>jsonp\<close>; no parameter of any endpoint of a parsed trace, path or query, carries such a
  name, also after merging. These two parameter lists are all the generator reads of the
  parameters of an endpoint, for its input schema, its handler and its documentation; in
  particular no property of a generated input schema carries such a name.
\<close>

theorem framework_query_params_excluded:
  "map p_name (extract_query_params L url)
     = filter (\<lambda>n. \<not> (startswith n ''_'' \<or> n \<in> {''rsc'', ''callback'', ''jsonp''}))
         (map fst (parse_qs L (u_query (urlparse L url))))
   \<and> (\<forall>ep\<in>set (endpoints (parse L es)). \<forall>p\<in>set (path_params ep @ query_params ep).
         \<not> startswith (p_name p) ''_'' \<and> p_name p \<notin> {''rsc'', ''callback'', ''jsonp''})
   \<and> (\<forall>ep\<in>set (endpoints (parse L es)). \<forall>k\<in>set (schema_property_names (input_schema ep)).
         \<not> startswith k ''_'' \<and> k \<notin> {''rsc'', ''callback'', ''jsonp''})"
proof -
  have "\<forall>(k, ep)\<in>set (endpoints_map (parse_loop L es)). params_plain ep"
    unfolding parse_loop_def by (rule params_plain_foldl) simp
  then have a: "\<forall>ep\<in>set (endpoints (parse L es)). params_plain ep"
    unfolding endpoints_parse by auto
  have b: "plain_name k"
    if "ep \<in> set (endpoints (parse L es))" and "k \<in> set (schema_property_names (input_schema ep))"
    for ep k
  proof -
    from that(2) input_schema_names [of ep]
    have "k = ''body'' \<or> k \<in> set (map p_name (path_params ep @ query_params ep))"
      by blast
    then show ?thesis
    proof
      assume "k = ''body''"
      then show ?thesis by (simp add: plain_name_def startswith_def)
    next
      assume "k \<in> set (map p_name (path_params ep @ query_params ep))"
      with a that(1) show ?thesis
        unfolding params_plain_def by auto
    qed
  qed
  from a b show ?thesis
    using query_params_names [of L url]
    unfolding params_plain_def plain_name_def by blast
qed

theorem framework_query_params_excluded_witness:
  "map fst (parse_qs (py (\<lambda>_. None) (\<lambda>_. 0)) (u_query (urlparse (py (\<lambda>_. None) (\<lambda>_. 0))
       ''https://api.example.com/api/v1/items?_t=9&callback=cb&rsc=1&jsonp=x&page=1'')))
     = [''_t'', ''callback'', ''rsc'', ''jsonp'', ''page'']
   \<and> map p_name (extract_query_params (py (\<lambda>_. None) (\<lambda>_. 0))
       ''https://api.example.com/api/v1/items?_t=9&callback=cb&rsc=1&jsonp=x&page=1'')
     = [''page'']
   \<and> map (\<lambda>ep. map p_name (query_params ep))
       (endpoints (parse (py (\<lambda>_. None) (\<lambda>_. 0)) framework_params)) = [[''page'']]
   \<and> map (\<lambda>ep. schema_property_names (input_schema ep))
       (endpoints (parse (py (\<lambda>_. None) (\<lambda>_. 0)) framework_params)) = [[''page'']]"
proof -
  let ?L = "py (\<lambda>_. None) (\<lambda>_. 0)"
  let ?u = "''https://api.example.com/api/v1/items?_t=9&callback=cb&rsc=1&jsonp=x&page=1''"
  have q: "map fst (parse_qs ?L (u_query (urlparse ?L ?u)))
     = [''_t'', ''callback'', ''rsc'', ''jsonp'', ''page'']"
    by code_simp
  have e: "map (\<lambda>ep. map p_name (query_params ep)) (endpoints (parse ?L framework_params))
     = [[''page'']]"
    by code_simp
  have i: "map (\<lambda>ep. schema_property_names (input_schema ep))
       (endpoints (parse ?L framework_params)) = [[''page'']]"
    by code_simp
  from framework_query_params_excluded [of ?L ?u framework_params]
  have "map p_name (extract_query_params ?L ?u) = [''page'']"
    unfolding q by (simp add: startswith_def)
  with q e i show ?thesis by simp
qed

text \<open>
  Claim C7. The hosts and the base URLs are collected in sets, and the service name and
  the primary base URL are taken from the first element that iterating the set yields. That
  order follows the string hashes of the running interpreter, so one trace with two hosts
  gives one name and base URL under one hash function and another under another, and the
  generated files, which embed the name, differ with them.
\<close>

theorem service_identity_follows_set_order:
  "s_name (parse (py (\<lambda>_. None) prefer_a) two_hosts) = ''a-example''
   \<and> s_base_url (parse (py (\<lambda>_. None) prefer_a) two_hosts) = ''https://a.example.com''
   \<and> s_name (parse (py (\<lambda>_. None) prefer_b) two_hosts) = ''b-example''
   \<and> s_base_url (parse (py (\<lambda>_. None) prefer_b) two_hosts) = ''https://b.example.com''
   \<and> init_py (parse (py (\<lambda>_. None) prefer_a) two_hosts)
       \<noteq> init_py (parse (py (\<lambda>_. None) prefer_b) two_hosts)"
  by code_simp

section \<open>Credentials do not reach the artifacts\<close>

lemma erase_simps [simp]:
  "s_name (erase si) = s_name si"
  "s_base_url (erase si) = s_base_url si"
  "endpoints (erase si) = map erase_endpoint (endpoints si)"
  "auth_patterns (erase si) = map erase_auth (auth_patterns si)"
  by (simp_all add: erase_def)

lemma erase_endpoint_simps [simp]:
  "e_method (erase_endpoint ep) = e_method ep"
  "e_path (erase_endpoint ep) = e_path ep"
  "query_params (erase_endpoint ep) = query_params ep"
  "path_params (erase_endpoint ep) = path_params ep"
  "request_body (erase_endpoint ep) = request_body ep"
  by (simp_all add: erase_endpoint_def)

lemma erase_auth_simps [simp]:
  "auth_type (erase_auth a) = auth_type a"
  "header_name (erase_auth a) = header_name a"
  by (simp_all add: erase_auth_def)

lemma tool_name_erase [simp]: "tool_name (erase_endpoint ep) = tool_name ep"
  by (simp add: tool_name_def Let_def)

lemma input_schema_erase [simp]: "input_schema (erase_endpoint ep) = input_schema ep"
  by (simp add: input_schema_def Let_def)

lemma generate_tool_code_erase [simp]:
  "generate_tool_code (erase_endpoint ep) = generate_tool_code ep"
  by (simp add: generate_tool_code_def Let_def)

lemma tools_list_item_erase [simp]:
  "tools_list_item G (erase_endpoint ep) = tools_list_item G ep"
  by (simp add: tools_list_item_def Let_def)

lemma tool_doc_erase [simp]: "tool_doc (erase_endpoint ep) = tool_doc ep"
  by (simp add: tool_doc_def Let_def)

lemma server_name_erase [simp]: "server_name (erase si) = server_name si"
  by (simp add: server_name_def Let_def)

lemma env_prefix_of_erase [simp]: "env_prefix_of (erase si) = env_prefix_of si"
  by (simp add: env_prefix_of_def Let_def)

lemma env_var_name_erase [simp]: "env_var_name (erase si) s = env_var_name si s"
  by (simp add: env_var_name_def Let_def)

lemma generate_tools_list_items_erase [simp]:
  "generate_tools_list_items G (erase si) = generate_tools_list_items G si"
  by (simp add: generate_tools_list_items_def Let_def comp_def)

lemma server_py_erase: "server_py G (erase si) = server_py G si"
  by (simp add: server_py_def Let_def comp_def)

lemma init_py_erase: "init_py (erase si) = init_py si"
  by (simp add: init_py_def Let_def)

lemma auth_py_erase: "auth_py (erase si) = auth_py si"
  by (simp add: auth_py_def Let_def)

lemma client_py_erase: "client_py (erase si) = client_py si"
  by (simp add: client_py_def Let_def)

lemma pyproject_toml_erase: "pyproject_toml (erase si) = pyproject_toml si"
  by (simp add: pyproject_toml_def Let_def)

lemma auth_readme_rows_erase [simp]:
  "auth_readme_rows p (erase_auth a) = auth_readme_rows p a"
  by (simp add: auth_readme_rows_def)

lemma auth_readme_example_erase [simp]:
  "auth_readme_example p (erase_auth a) = auth_readme_example p a"
  by (simp add: auth_readme_example_def)

lemma claude_env_section_erase [simp]:
  "claude_env_section p (erase_auth a) = claude_env_section p a"
  by (simp add: claude_env_section_def)

lemma env_example_block_erase [simp]:
  "env_example_block p (erase_auth a) = env_example_block p a"
  by (simp add: env_example_block_def)

lemma generate_auth_readme_section_erase [simp]:
  "generate_auth_readme_section (erase si) p = generate_auth_readme_section si p"
  by (simp add: generate_auth_readme_section_def Let_def comp_def hd_map)

lemma generate_claude_desktop_config_erase [simp]:
  "generate_claude_desktop_config (erase si) p = generate_claude_desktop_config si p"
  by (simp add: generate_claude_desktop_config_def Let_def hd_map)

lemma readme_md_erase: "readme_md (erase si) = readme_md si"
  by (simp add: readme_md_def Let_def comp_def)

lemma env_example_erase: "env_example (erase si) = env_example si"
  by (simp add: env_example_def Let_def comp_def)

lemma generate_pyproject_toml_erase:
  "generate_pyproject_toml (erase si) d = generate_pyproject_toml si d"
  by (simp add: generate_pyproject_toml_def pyproject_toml_erase)

lemma generate_erase: "generate G (erase si) output_dir = generate G si output_dir"
  by (simp add: generate_def server_py_erase init_py_erase auth_py_erase client_py_erase
      generate_pyproject_toml_erase readme_md_erase env_example_erase)

lemma auth_header_names:
  "auth_header h \<Longrightarrow>
   lower (h_name h) \<noteq> ''accept'' \<and> lower (h_name h) \<noteq> ''content-type'' \<and>
   lower (h_name h) \<noteq> ''cookie''"
  by (auto simp: auth_header_def AUTH_HEADERS_def split: if_splits)

lemma header_has_json_same:
  assumes "list_all2 same_but_credential hs hs'" and "n = ''accept'' \<or> n = ''content-type''"
  shows "header_has_json n hs' = header_has_json n hs"
  using assms
proof (induction hs hs' rule: list_all2_induct)
  case Nil
  then show ?case by simp
next
  case (Cons h hs h' hs')
  then show ?case
    using auth_header_names [of h] by (auto simp: same_but_credential_def)
qed

lemma relevant_same:
  assumes "same_but_credentials e e'"
  shows "relevant L e' = relevant L e"
proof -
  from assms have u: "r_url (req e') = r_url (req e)"
    and h: "list_all2 same_but_credential (r_headers (req e)) (r_headers (req e'))"
    by (simp_all add: same_but_credentials_def)
  show ?thesis
    by (simp add: relevant_def is_api_call_def u header_has_json_same [OF h])
qed

lemma header_auth_patterns_same:
  "list_all2 same_but_credential hs hs' \<Longrightarrow>
   map erase_auth (header_auth_patterns hs') = map erase_auth (header_auth_patterns hs)"
proof (induction hs hs' rule: list_all2_induct)
  case Nil
  then show ?case by simp
next
  case (Cons h hs h' hs')
  then show ?case
    by (auto simp: same_but_credential_def erase_auth_def split: option.splits)
qed

lemma cookie_auth_patterns_same:
  "list_all2 same_but_credential hs hs' \<Longrightarrow>
   cookie_auth_patterns hs' = cookie_auth_patterns hs"
proof (induction hs hs' rule: list_all2_induct)
  case Nil
  then show ?case by simp
next
  case (Cons h hs h' hs')
  then show ?case
    using auth_header_names [of h] by (auto simp: same_but_credential_def)
qed

lemma extract_auth_patterns_same:
  "list_all2 same_but_credential hs hs' \<Longrightarrow>
   map erase_auth (extract_auth_patterns hs') = map erase_auth (extract_auth_patterns hs)"
  by (simp add: extract_auth_patterns_def header_auth_patterns_same cookie_auth_patterns_same)

lemma entry_key_same: "same_but_credentials e e' \<Longrightarrow> entry_key L e' = entry_key L e"
  by (simp add: same_but_credentials_def entry_key_def)

lemma extract_request_body_same:
  "postData r' = postData r \<Longrightarrow> extract_request_body L r' = extract_request_body L r"
  by (simp add: extract_request_body_def)

lemma new_endpoint_same:
  assumes "same_but_credentials e e'"
  shows "erase_endpoint (new_endpoint L e') = erase_endpoint (new_endpoint L e)"
proof -
  from assms have u: "r_url (req e') = r_url (req e)" and m: "r_method (req e') = r_method (req e)"
    and r: "resp e' = resp e" and p: "postData (req e') = postData (req e)"
    by (simp_all add: same_but_credentials_def)
  note b = extract_request_body_same [OF p, of L]
  show ?thesis
    by (simp add: new_endpoint_def erase_endpoint_def Let_def u m r b)
qed

lemma erase_dict_set:
  "map (\<lambda>(k, ep). (k, f ep)) (dict_set key v m)
   = dict_set key (f v) (map (\<lambda>(k, ep). (k, f ep)) m)"
  by (induction m) auto

lemma map_of_erased:
  "map_of (map (\<lambda>(k, ep). (k, f ep)) m) key = map_option f (map_of m key)"
  by (induction m) auto

lemma erase_merge:
  "erase_endpoint (merge_query_params ex qps) = merge_query_params (erase_endpoint ex) qps"
  by (simp add: merge_query_params_def erase_endpoint_def Let_def)

lemma step_same:
  assumes s: "same_but_credentials e e'" and st: "erase_state st' = erase_state st"
  shows "erase_state (process_entry L st' e') = erase_state (process_entry L st e)"
proof (cases "relevant L e")
  case False
  then have "\<not> relevant L e'" by (simp add: relevant_same [OF s])
  with False st show ?thesis by (simp add: not_relevant_skip)
next
  case True
  then have r': "relevant L e'" by (simp add: relevant_same [OF s])
  let ?E = "map (\<lambda>(k, ep). (k, erase_endpoint ep))"
  from st have m: "?E (endpoints_map st') = ?E (endpoints_map st)"
    and a: "map erase_auth (all_auth_patterns st') = map erase_auth (all_auth_patterns st)"
    and b: "base_urls st' = base_urls st"
    by (simp_all add: erase_state_def)
  from s have u: "r_url (req e') = r_url (req e)"
    and h: "list_all2 same_but_credential (r_headers (req e)) (r_headers (req e'))"
    by (simp_all add: same_but_credentials_def)
  let ?k = "entry_key L e"
  let ?q = "extract_query_params L (r_url (req e))"
  have lk: "map_option erase_endpoint (map_of (endpoints_map st') ?k)
          = map_option erase_endpoint (map_of (endpoints_map st) ?k)"
    using m by (metis map_of_erased)
  have em: "?E (endpoints_map (process_entry L st' e')) = ?E (endpoints_map (process_entry L st e))"
  proof (cases "map_of (endpoints_map st) ?k")
    case None
    with lk have "map_of (endpoints_map st') ?k = None" by simp
    with None True r' show ?thesis
      by (simp add: endpoints_map_step entry_key_same [OF s] erase_dict_set m
          new_endpoint_same [OF s])
  next
    case (Some ex)
    with lk obtain ex' where s': "map_of (endpoints_map st') ?k = Some ex'"
      and ee: "erase_endpoint ex' = erase_endpoint ex"
      by auto
    from Some s' True r' show ?thesis
      by (simp add: endpoints_map_step entry_key_same [OF s] erase_dict_set m u
          erase_merge ee)
  qed
  show ?thesis
    using em a b True r'
    by (simp add: erase_state_def process_entry_relevant u extract_auth_patterns_same [OF h])
qed

lemma foldl_same:
  "list_all2 same_but_credentials es es' \<Longrightarrow> erase_state st' = erase_state st \<Longrightarrow>
   erase_state (foldl (process_entry L) st' es') = erase_state (foldl (process_entry L) st es)"
proof (induction es es' arbitrary: st st' rule: list_all2_induct)
  case Nil
  then show ?case by simp
next
  case (Cons e es e' es')
  from Cons.IH [OF step_same [OF Cons.hyps(1) Cons.prems]] show ?case by simp
qed

lemma remember_auth_erase:
  "map (\<lambda>(k, a). (k, erase_auth a)) (remember_auth p u)
   = remember_auth (erase_auth p) (map (\<lambda>(k, a). (k, erase_auth a)) u)"
  by (simp add: remember_auth_def Let_def erase_dict_set map_of_erased)

lemma unique_auth_fold_erase:
  "map (\<lambda>(k, a). (k, erase_auth a)) (fold remember_auth ps acc)
   = fold remember_auth (map erase_auth ps) (map (\<lambda>(k, a). (k, erase_auth a)) acc)"
  by (induction ps arbitrary: acc) (simp_all add: remember_auth_erase)

lemma unique_auth_erase:
  "map erase_auth (map snd (unique_auth ps)) = map snd (unique_auth (map erase_auth ps))"
proof -
  have "map erase_auth (map snd (unique_auth ps))
      = map snd (map (\<lambda>(k, a). (k, erase_auth a)) (unique_auth ps))"
    by (simp add: comp_def case_prod_unfold)
  also have "\<dots> = map snd (unique_auth (map erase_auth ps))"
    unfolding unique_auth_def unique_auth_fold_erase by simp
  finally show ?thesis .
qed

lemma entry_hosts_same:
  "list_all2 same_but_credentials es es' \<Longrightarrow> entry_hosts L es' = entry_hosts L es"
proof (induction es es' rule: list_all2_induct)
  case Nil
  then show ?case by simp
next
  case (Cons e es e' es')
  then show ?case
    by (simp add: entry_hosts_def same_but_credentials_def)
qed

lemma parse_same:
  assumes "list_all2 same_but_credentials es es'"
  shows "erase (parse L es') = erase (parse L es)"
proof -
  have "erase_state (parse_loop L es') = erase_state (parse_loop L es)"
    unfolding parse_loop_def by (rule foldl_same [OF assms]) simp
  then have m: "map (\<lambda>(k, ep). (k, erase_endpoint ep)) (endpoints_map (parse_loop L es'))
              = map (\<lambda>(k, ep). (k, erase_endpoint ep)) (endpoints_map (parse_loop L es))"
    and a: "map erase_auth (all_auth_patterns (parse_loop L es'))
          = map erase_auth (all_auth_patterns (parse_loop L es))"
    and b: "base_urls (parse_loop L es') = base_urls (parse_loop L es)"
    by (simp_all add: erase_state_def)
  have "map snd (map (\<lambda>(k, ep). (k, erase_endpoint ep)) (endpoints_map (parse_loop L es')))
      = map snd (map (\<lambda>(k, ep). (k, erase_endpoint ep)) (endpoints_map (parse_loop L es)))"
    by (simp only: m)
  then have e: "map erase_endpoint (map snd (endpoints_map (parse_loop L es')))
              = map erase_endpoint (map snd (endpoints_map (parse_loop L es)))"
    by (simp add: comp_def case_prod_unfold)
  have n: "extract_service_name L es' = extract_service_name L es"
    by (simp add: extract_service_name_def entry_hosts_same [OF assms])
  have au: "map erase_auth (map snd (unique_auth (all_auth_patterns (parse_loop L es'))))
           = map erase_auth (map snd (unique_auth (all_auth_patterns (parse_loop L es))))"
    by (simp only: unique_auth_erase a)
  show ?thesis
    using e n b au
    by (simp add: erase_def parse_def Let_def)
qed

lemma extract_auth_patterns_masked: "a \<in> set (extract_auth_patterns hs) \<Longrightarrow> masked a"
proof -
  have h: "a \<in> set (header_auth_patterns hs) \<Longrightarrow> masked a" for hs
    by (induction hs) (auto simp: masked_def mask_value_def split: option.splits if_splits)
  have c: "a \<in> set (cookie_auth_patterns hs) \<Longrightarrow> masked a" for hs
    by (induction hs) (auto simp: masked_def split: if_splits)
  assume "a \<in> set (extract_auth_patterns hs)"
  with h c show ?thesis by (auto simp: extract_auth_patterns_def)
qed

lemma remember_auth_subset: "set (map snd (remember_auth p u)) \<subseteq> insert p (set (map snd u))"
  using set_dict_set [of "auth_type p @ '':'' @ header_name p" p u]
  by (auto simp: remember_auth_def Let_def)

lemma unique_auth_fold_subset:
  "set (map snd (fold remember_auth ps acc)) \<subseteq> set ps \<union> set (map snd acc)"
proof (induction ps arbitrary: acc)
  case Nil
  then show ?case by simp
next
  case (Cons p ps)
  from Cons.IH [of "remember_auth p acc"] remember_auth_subset [of p acc]
  show ?case by auto
qed

lemma all_auth_patterns_step:
  "set (all_auth_patterns (process_entry L st e))
   \<subseteq> set (all_auth_patterns st) \<union> set (extract_auth_patterns (r_headers (req e)))"
  by (cases "relevant L e") (simp_all add: not_relevant_skip process_entry_relevant)

lemma all_auth_patterns_masked:
  "\<forall>a\<in>set (all_auth_patterns st). masked a \<Longrightarrow>
   \<forall>a\<in>set (all_auth_patterns (foldl (process_entry L) st es)). masked a"
proof (induction es arbitrary: st)
  case Nil
  then show ?case by simp
next
  case (Cons e es)
  have "\<forall>a\<in>set (all_auth_patterns (process_entry L st e)). masked a"
    using Cons.prems all_auth_patterns_step [of L st e] extract_auth_patterns_masked
    by blast
  from Cons.IH [OF this] show ?case by simp
qed

lemma auth_patterns_masked: "a \<in> set (auth_patterns (parse L es)) \<Longrightarrow> masked a"
proof -
  assume "a \<in> set (auth_patterns (parse L es))"
  then have "a \<in> set (map snd (unique_auth (all_auth_patterns (parse_loop L es))))"
    by (simp add: parse_def Let_def)
  then have "a \<in> set (all_auth_patterns (parse_loop L es))"
    using unique_auth_fold_subset [of "all_auth_patterns (parse_loop L es)" "[]"]
    unfolding unique_auth_def by auto
  moreover have "\<forall>a\<in>set (all_auth_patterns (parse_loop L es)). masked a"
    unfolding parse_loop_def by (rule all_auth_patterns_masked) simp
  ultimately show ?thesis by blast
qed

lemma auth_header_pattern:
  assumes "h \<in> set hs" and "auth_header h"
  shows "\<exists>t. \<lparr>auth_type = t, header_name = h_name h,
              example_value = mask_value (h_value h), location = ''header''\<rparr>
            \<in> set (extract_auth_patterns hs)"
proof -
  from assms(2) obtain t where "map_of AUTH_HEADERS (lower (h_name h)) = Some t"
    by (auto simp: auth_header_def)
  from header_auth_patterns_mem [OF assms(1) this] show ?thesis
    by (auto simp: extract_auth_patterns_def)
qed

text \<open>
  Claim C1. Every header that the detector recognizes by its name yields a pattern whose
  example value is \<open>Bearer <token>\<close> when the lower-cased value starts with \<open>bearer\<close> and a
  space, and \<open><api_key>\<close> otherwise; every example value in a parsed \<open>ServiceInfo\<close> is one
  of the three placeholders. The parser does keep the header values in the stored headers of
  an endpoint, but the generator reads neither those nor the example values: it writes the
  same files when they are erased, and hence writes the same files, byte for byte, for two
  traces that differ only in the values of recognized authentication headers. Nothing a
  credential is made of reaches an artifact.
\<close>

theorem credentials_masked_and_not_generated:
  "(h \<in> set hs \<and> auth_header h \<longrightarrow>
      (\<exists>t. \<lparr>auth_type = t, header_name = h_name h,
             example_value =
               (if startswith (lower (h_value h)) ''bearer ''
                then ''Bearer <token>'' else ''<api_key>''),
             location = ''header''\<rparr>
           \<in> set (extract_auth_patterns hs)))
   \<and> (\<forall>a\<in>set (auth_patterns (parse L es)).
         example_value a = ''Bearer <token>'' \<or> example_value a = ''<api_key>'' \<or>
         example_value a = ''<session_cookie>'')
   \<and> generate G (erase si) output_dir w = generate G si output_dir w
   \<and> (list_all2 same_but_credentials es es' \<longrightarrow>
         generate G (parse L es') output_dir w = generate G (parse L es) output_dir w)"
proof -
  have a: "h \<in> set hs \<and> auth_header h \<longrightarrow>
      (\<exists>t. \<lparr>auth_type = t, header_name = h_name h,
             example_value =
               (if startswith (lower (h_value h)) ''bearer ''
                then ''Bearer <token>'' else ''<api_key>''),
             location = ''header''\<rparr>
           \<in> set (extract_auth_patterns hs))"
    using auth_header_pattern [of h hs] by (simp add: mask_value_def)
  have b: "\<forall>a\<in>set (auth_patterns (parse L es)).
         example_value a = ''Bearer <token>'' \<or> example_value a = ''<api_key>'' \<or>
         example_value a = ''<session_cookie>''"
    using auth_patterns_masked [of _ L es] by (simp add: masked_def)
  have c: "generate G (parse L es') output_dir w = generate G (parse L es) output_dir w"
    if "list_all2 same_but_credentials es es'"
  proof -
    have "generate G (parse L es') output_dir = generate G (erase (parse L es')) output_dir"
      by (simp add: generate_erase)
    also have "\<dots> = generate G (erase (parse L es)) output_dir"
      by (simp add: parse_same [OF that])
    also have "\<dots> = generate G (parse L es) output_dir"
      by (simp add: generate_erase)
    finally show ?thesis by simp
  qed
  from a b c show ?thesis
    by (simp add: generate_erase)
qed

lemma bearer_traces_related:
  "list_all2 same_but_credentials (bearer_trace s) (bearer_trace s')"
  by (simp add: bearer_trace_def same_but_credentials_def same_but_credential_def
      get_request_def auth_header_def AUTH_HEADERS_def lower_def lower_char_def)

theorem credentials_masked_and_not_generated_witness:
  "\<lparr>h_name = ''Authorization'', h_value = ''Bearer abc123''\<rparr>
     \<in> set [\<lparr>h_name = ''Authorization'', h_value = ''Bearer abc123''\<rparr>]
   \<and> auth_header \<lparr>h_name = ''Authorization'', h_value = ''Bearer abc123''\<rparr>
   \<and> extract_auth_patterns [\<lparr>h_name = ''Authorization'', h_value = ''Bearer abc123''\<rparr>]
       = [\<lparr>auth_type = ''bearer'', header_name = ''Authorization'',
           example_value = ''Bearer <token>'', location = ''header''\<rparr>]
   \<and> list_all2 same_but_credentials (bearer_trace ''abc123'') (bearer_trace ''zzz999'')
   \<and> generate gen0 (parse (py (\<lambda>_. None) (\<lambda>_. 0)) (bearer_trace ''zzz999'')) ''/out'' world0
       = generate gen0 (parse (py (\<lambda>_. None) (\<lambda>_. 0)) (bearer_trace ''abc123'')) ''/out'' world0
   \<and> env_example (parse (py (\<lambda>_. None) (\<lambda>_. 0)) (bearer_trace ''abc123''))
       = join_nl [''# iblai-example Configuration'',
           ''# Copy this file to .env and update with your values'',
           [],
           ''# Base URL (optional, defaults to discovered URL)'',
           ''# EXAMPLE_BASE_URL=https://api.example.com'',
           [],
           ''EXAMPLE_AUTH_TYPE=bearer'',
           ''EXAMPLE_BEARER_TOKEN=your_token_here'',
           []]"
proof -
  let ?h = "\<lparr>h_name = ''Authorization'', h_value = ''Bearer abc123''\<rparr>"
  have m: "?h \<in> set [?h]" by simp
  have ah: "auth_header ?h"
    by (simp add: auth_header_def AUTH_HEADERS_def lower_def lower_char_def)
  have e: "extract_auth_patterns [?h]
       = [\<lparr>auth_type = ''bearer'', header_name = ''Authorization'',
           example_value = ''Bearer <token>'', location = ''header''\<rparr>]"
    by code_simp
  note r = bearer_traces_related [of "''abc123''" "''zzz999''"]
  from credentials_masked_and_not_generated
    [where es = "bearer_trace ''abc123''" and es' = "bearer_trace ''zzz999''"
       and G = gen0 and L = "py (\<lambda>_. None) (\<lambda>_. 0)" and output_dir = "''/out''" and w = world0
       and h = ?h and hs = "[?h]"] r
  have "generate gen0 (parse (py (\<lambda>_. None) (\<lambda>_. 0)) (bearer_trace ''zzz999'')) ''/out'' world0
       = generate gen0 (parse (py (\<lambda>_. None) (\<lambda>_. 0)) (bearer_trace ''abc123'')) ''/out'' world0"
    by blast
  moreover have "env_example (parse (py (\<lambda>_. None) (\<lambda>_. 0)) (bearer_trace ''abc123''))
       = join_nl [''# iblai-example Configuration'',
           ''# Copy this file to .env and update with your values'',
           [],
           ''# Base URL (optional, defaults to discovered URL)'',
           ''# EXAMPLE_BASE_URL=https://api.example.com'',
           [],
           ''EXAMPLE_AUTH_TYPE=bearer'',
           ''EXAMPLE_BEARER_TOKEN=your_token_here'',
           []]"
    by code_simp
  ultimately show ?thesis using m ah e r by blast
qed

text \<open>
  The \<open>ServiceInfo\<close> itself does keep the credential: \<open>_normalize_headers\<close> stores the
  value of every header it does not skip, and \<open>authorization\<close> is not skipped.
\<close>

lemma parsed_headers_keep_credential:
  "map e_headers (endpoints (parse (py (\<lambda>_. None) (\<lambda>_. 0)) (bearer_trace ''abc123'')))
   = [[(''Authorization'', ''Bearer abc123'')]]"
  by code_simp

section \<open>Properties of the \<open>create\<close> command\<close>

lemma io_then_ok: "m w = (Inr u, w1) \<Longrightarrow> io_then m k w = k w1"
  by (simp add: io_then_def)

lemma makedirs_ok: "can_write w d \<Longrightarrow> makedirs d w = (Inr (), w)"
  by (simp add: makedirs_def)

lemma write_file_ok:
  "can_write w (path_join d f) \<Longrightarrow>
   write_file d f c w = (Inr (), w\<lparr>files := (files w)(path_join d f \<mapsto> c)\<rparr>)"
  by (simp add: write_file_def)

lemma move_files_ok:
  "\<forall>p. can_write w p \<Longrightarrow>
   \<exists>w'. move_files sd pd fs w = (Inr (), w') \<and> can_write w' = can_write w"
proof (induction fs arbitrary: w)
  case Nil
  show ?case by (simp add: io_return_def)
next
  case (Cons f fs)
  show ?case
  proof (cases "files w (path_join sd f)")
    case None
    with Cons.IH [OF Cons.prems] show ?thesis by simp
  next
    case (Some c)
    let ?w1 = "w\<lparr>files := ((files w)(path_join sd f := None))(path_join pd f \<mapsto> c)\<rparr>"
    have r: "rename (path_join sd f) (path_join pd f) w = (Inr (), ?w1)"
      using Some Cons.prems by (simp add: rename_def)
    have "\<forall>p. can_write ?w1 p" using Cons.prems by simp
    from Cons.IH [OF this] obtain w' where
      mv: "move_files sd pd fs ?w1 = (Inr (), w')" and c1: "can_write w' = can_write ?w1"
      by blast
    from c1 have cw: "can_write w' = can_write w" by simp
    have "move_files sd pd (f # fs) w = (Inr (), w')"
      using Some mv
      by (simp add: io_then_ok [where m = "rename (path_join sd f) (path_join pd f)", OF r])
    with cw show ?thesis by blast
  qed
qed

lemma generate_pyproject_toml_ok:
  assumes "\<forall>p. can_write w p"
  shows "\<exists>w'. generate_pyproject_toml si d w = (Inr (), w') \<and> can_write w' = can_write w"
proof -
  let ?pd = "path_join d (replace (server_name si) ''-'' ''_'')"
  from move_files_ok [OF assms, of d ?pd "[''server.py'', ''__init__.py'', ''auth.py'', ''client.py'']"]
  obtain w1 where m: "move_files d ?pd [''server.py'', ''__init__.py'', ''auth.py'', ''client.py''] w
      = (Inr (), w1)" and c: "can_write w1 = can_write w"
    by blast
  have mk: "makedirs ?pd w = (Inr (), w)"
    using assms by (simp add: makedirs_ok)
  have wr: "write_file d ''pyproject.toml'' (pyproject_toml si) w1
      = (Inr (), w1\<lparr>files := (files w1)(path_join d ''pyproject.toml'' \<mapsto> pyproject_toml si)\<rparr>)"
    using assms c by (simp add: write_file_ok)
  have "generate_pyproject_toml si d w
      = write_file d ''pyproject.toml'' (pyproject_toml si) w1"
    unfolding generate_pyproject_toml_def Let_def
    by (simp only: io_then_ok [where m = "makedirs ?pd", OF mk]
        io_then_ok [where m = "move_files d ?pd [''server.py'', ''__init__.py'', ''auth.py'', ''client.py'']", OF m])
  with wr c show ?thesis by simp
qed

lemma generate_ok:
  assumes "\<forall>p. can_write w p"
  shows "\<exists>w'. generate G si output_dir w = (Inr (path_join output_dir (server_name si)), w')
           \<and> files w' (path_join (path_join output_dir (server_name si)) ''.env.example'')
               = Some (env_example si)"
proof -
  let ?d = "path_join output_dir (server_name si)"
  let ?w1 = "w\<lparr>files := (files w)(path_join ?d ''server.py'' \<mapsto> server_py G si)\<rparr>"
  let ?w2 = "?w1\<lparr>files := (files ?w1)(path_join ?d ''__init__.py'' \<mapsto> init_py si)\<rparr>"
  let ?w3 = "?w2\<lparr>files := (files ?w2)(path_join ?d ''auth.py'' \<mapsto> auth_py si)\<rparr>"
  let ?w4 = "?w3\<lparr>files := (files ?w3)(path_join ?d ''client.py'' \<mapsto> client_py si)\<rparr>"
  have cw: "\<forall>p. can_write ?w4 p" using assms by simp
  from generate_pyproject_toml_ok [OF cw, of si ?d]
  obtain w5 where p: "generate_pyproject_toml si ?d ?w4 = (Inr (), w5)"
    and c5: "can_write w5 = can_write ?w4"
    by blast
  let ?w6 = "w5\<lparr>files := (files w5)(path_join ?d ''README.md'' \<mapsto> readme_md si)\<rparr>"
  let ?w7 = "?w6\<lparr>files := (files ?w6)(path_join ?d ''.env.example'' \<mapsto> env_example si)\<rparr>"
  have s0: "makedirs ?d w = (Inr (), w)" using assms by (simp add: makedirs_ok)
  have s1: "write_file ?d ''server.py'' (server_py G si) w = (Inr (), ?w1)"
    using assms by (simp add: write_file_ok)
  have s2: "write_file ?d ''__init__.py'' (init_py si) ?w1 = (Inr (), ?w2)"
    using assms by (simp add: write_file_ok)
  have s3: "write_file ?d ''auth.py'' (auth_py si) ?w2 = (Inr (), ?w3)"
    using assms by (simp add: write_file_ok)
  have s4: "write_file ?d ''client.py'' (client_py si) ?w3 = (Inr (), ?w4)"
    using assms by (simp add: write_file_ok)
  have s6: "write_file ?d ''README.md'' (readme_md si) w5 = (Inr (), ?w6)"
    using assms c5 by (simp add: write_file_ok)
  have s7: "write_file ?d ''.env.example'' (env_example si) ?w6 = (Inr (), ?w7)"
    using assms c5 by (simp add: write_file_ok)
  have "generate G si output_dir w = (Inr ?d, ?w7)"
    unfolding generate_def Let_def
    by (simp only: io_then_ok [where m = "makedirs ?d", OF s0]
        io_then_ok [where m = "write_file ?d ''server.py'' (server_py G si)", OF s1]
        io_then_ok [where m = "write_file ?d ''__init__.py'' (init_py si)", OF s2]
        io_then_ok [where m = "write_file ?d ''auth.py'' (auth_py si)", OF s3]
        io_then_ok [where m = "write_file ?d ''client.py'' (client_py si)", OF s4]
        io_then_ok [where m = "generate_pyproject_toml si ?d", OF p]
        io_then_ok [where m = "write_file ?d ''README.md'' (readme_md si)", OF s6]
        io_then_ok [where m = "write_file ?d ''.env.example'' (env_example si)", OF s7]
        io_return_def)
  moreover have "files ?w7 (path_join ?d ''.env.example'') = Some (env_example si)"
    by simp
  ultimately show ?thesis by blast
qed

lemma load_not_found:
  "read_text w p = Inl e \<Longrightarrow> parse_har_file L X w p = Some (Inl e)"
  by (simp add: parse_har_file_def load_def)

lemma load_not_json:
  "read_text w p = Inr content \<Longrightarrow> loads_raises X content = None \<Longrightarrow>
   json_loads L content = None \<Longrightarrow> parse_har_file L X w p = Some (Inl JSONDecodeError)"
  by (simp add: parse_har_file_def load_def json_load_def)

lemma load_not_object:
  "read_text w p = Inr content \<Longrightarrow> json_load L X content = Inr v \<Longrightarrow> \<forall>d. v \<noteq> JObj d \<Longrightarrow>
   parse_har_file L X w p = Some (Inl AttributeError)"
  by (cases v) (simp_all add: parse_har_file_def load_def)

lemma parse_urlparse_raises:
  "load L X w p = Inr (JList js) \<Longrightarrow> those (map decode_entry js) = Some (e # es) \<Longrightarrow>
   urlparse_raises X (r_url (req e)) = Some x \<Longrightarrow>
   parse_har_file L X w p = Some (Inl x)"
  by (simp add: parse_har_file_def typed_entries_def entry_error_def)

text \<open>
  A status that is not a number, and response headers that are not a list, are read as they
  are and do not stop the run.
\<close>

lemma status_is_not_checked:
  "decode_entry
     (JObj [(''request'', JObj [(''url'', JStr ''https://api.example.com/api/items'')]),
            (''response'', JObj [(''status'', JStr ''200''), (''headers'', JNull)])])
   = Some \<lparr>req = \<lparr>r_url = ''https://api.example.com/api/items'', r_method = ''GET'',
                   r_headers = [], postData = None\<rparr>,
            resp = \<lparr>status = JStr ''200'', resp_headers = [], c_text = [],
                    c_mimeType = []\<rparr>\<rparr>"
  by (simp add: decode_entry_def decode_request_def decode_response_def decode_headers_def
      decode_post_data_def get_obj_def get_str_def get_list_def)

lemma create_on_exception:
  "parse_har_file L X w (har_file args) = Some (Inl e) \<Longrightarrow>
   create_command L X G args w
     = Some (if e = FileNotFoundError \<or> e = JSONDecodeError then Exit 1 else Uncaught e, w)"
  by (simp add: create_command_def)

lemma create_on_service_info:
  "parse_har_file L X w (har_file args) = Some (Inr si) \<Longrightarrow>
   create_command L X G args w
     = (case generate_mcp_server G (override_name args si) (output_dir_of G args) w of
          (Inl e, w') \<Rightarrow> Some (Exit 1, w')
        | (Inr server_dir, w') \<Rightarrow> Some (Exit 0, w'))"
  by (simp add: create_command_def Let_def)

lemma create_exit_1_iff:
  "create_command L X G args w = Some (Exit 1, w') \<longleftrightarrow>
     ((parse_har_file L X w (har_file args) = Some (Inl FileNotFoundError) \<or>
       parse_har_file L X w (har_file args) = Some (Inl JSONDecodeError)) \<and> w' = w)
     \<or> (\<exists>si e. parse_har_file L X w (har_file args) = Some (Inr si) \<and>
           generate_mcp_server G (override_name args si) (output_dir_of G args) w = (Inl e, w'))"
proof (cases "parse_har_file L X w (har_file args)")
  case None
  then show ?thesis by (simp add: create_command_def)
next
  case (Some r)
  show ?thesis
  proof (cases r)
    case (Inl e)
    with Some show ?thesis by (auto simp: create_on_exception)
  next
    case (Inr si)
    with Some show ?thesis
      by (auto simp: create_on_service_info split: prod.splits sum.splits)
  qed
qed

lemma create_exit_0_iff:
  "create_command L X G args w = Some (Exit 0, w') \<longleftrightarrow>
     (\<exists>si server_dir. parse_har_file L X w (har_file args) = Some (Inr si) \<and>
        generate_mcp_server G (override_name args si) (output_dir_of G args) w
          = (Inr server_dir, w'))"
proof (cases "parse_har_file L X w (har_file args)")
  case None
  then show ?thesis by (simp add: create_command_def)
next
  case (Some r)
  show ?thesis
  proof (cases r)
    case (Inl e)
    with Some show ?thesis by (auto simp: create_on_exception)
  next
    case (Inr si)
    with Some show ?thesis
      by (auto simp: create_on_service_info split: prod.splits sum.splits)
  qed
qed

lemma create_succeeds_when_writable:
  assumes p: "parse_har_file L X w (har_file args) = Some (Inr si)"
    and cw: "\<forall>p. can_write w p"
  shows "\<exists>w'. generate_mcp_server G (override_name args si) (output_dir_of G args) w
               = (Inr (path_join (output_dir_of G args) (server_name (override_name args si))),
                  w')
             \<and> create_command L X G args w = Some (Exit 0, w')
             \<and> files w' (path_join (path_join (output_dir_of G args)
                                      (server_name (override_name args si))) ''.env.example'')
                 = Some (env_example (override_name args si))"
proof -
  from generate_ok [OF cw, of G "override_name args si" "output_dir_of G args"]
  obtain w' where g: "generate G (override_name args si) (output_dir_of G args) w
      = (Inr (path_join (output_dir_of G args) (server_name (override_name args si))), w')"
    and f: "files w' (path_join (path_join (output_dir_of G args)
                                   (server_name (override_name args si))) ''.env.example'')
              = Some (env_example (override_name args si))"
    by blast
  from p g have "create_command L X G args w = Some (Exit 0, w')"
    by (simp add: create_on_service_info generate_mcp_server_def)
  with g f show ?thesis by (auto simp: generate_mcp_server_def)
qed

text \<open>
  Claim C8, as the code has it. When opening the trace file raises \<open>FileNotFoundError\<close>, or
  its text is not JSON, \<open>create\<close> returns exit code 1 and leaves the file system as it was:
  it does not get as far as generating. These are not the only runs that return 1 with
  nothing written: \<open>create\<close> returns 1 exactly when loading and parsing raise one of these
  two exceptions, or when the generator raises any exception, and then the file system holds
  what the generator had written until it raised. Every other exception of opening and
  reading the file, and of loading and parsing, is not caught, and leaves the file system as
  it was. \<open>create\<close> returns 0 exactly
  when parsing and generation return, and leaves what generation has written.
\<close>

theorem create_exit_codes:
  "(read_text w (har_file args) = Inl FileNotFoundError \<longrightarrow>
        create_command L X G args w = Some (Exit 1, w))
   \<and> (read_text w (har_file args) = Inr content \<and> loads_raises X content = None \<and>
        json_loads L content = None \<longrightarrow>
        create_command L X G args w = Some (Exit 1, w))
   \<and> (create_command L X G args w = Some (Exit 1, w') \<longleftrightarrow>
        ((parse_har_file L X w (har_file args) = Some (Inl FileNotFoundError) \<or>
          parse_har_file L X w (har_file args) = Some (Inl JSONDecodeError)) \<and> w' = w)
        \<or> (\<exists>si e. parse_har_file L X w (har_file args) = Some (Inr si) \<and>
              generate_mcp_server G (override_name args si) (output_dir_of G args) w
                = (Inl e, w')))
   \<and> (read_text w (har_file args) = Inl e \<and>
        e \<noteq> FileNotFoundError \<and> e \<noteq> JSONDecodeError \<longrightarrow>
        create_command L X G args w = Some (Uncaught e, w))
   \<and> (parse_har_file L X w (har_file args) = Some (Inl e) \<and>
        e \<noteq> FileNotFoundError \<and> e \<noteq> JSONDecodeError \<longrightarrow>
        create_command L X G args w = Some (Uncaught e, w))
   \<and> (create_command L X G args w = Some (Exit 0, w') \<longleftrightarrow>
        (\<exists>si server_dir. parse_har_file L X w (har_file args) = Some (Inr si) \<and>
           generate_mcp_server G (override_name args si) (output_dir_of G args) w
             = (Inr server_dir, w')))"
proof -
  have a: "read_text w (har_file args) = Inl FileNotFoundError \<longrightarrow>
        create_command L X G args w = Some (Exit 1, w)"
    by (simp add: load_not_found create_on_exception)
  have b: "read_text w (har_file args) = Inr content \<and> loads_raises X content = None \<and>
        json_loads L content = None \<longrightarrow>
        create_command L X G args w = Some (Exit 1, w)"
    by (simp add: load_not_json create_on_exception)
  have c: "parse_har_file L X w (har_file args) = Some (Inl e) \<and>
        e \<noteq> FileNotFoundError \<and> e \<noteq> JSONDecodeError \<longrightarrow>
        create_command L X G args w = Some (Uncaught e, w)"
    by (simp add: create_on_exception)
  have c': "read_text w (har_file args) = Inl e \<and>
        e \<noteq> FileNotFoundError \<and> e \<noteq> JSONDecodeError \<longrightarrow>
        create_command L X G args w = Some (Uncaught e, w)"
    by (simp add: load_not_found create_on_exception)
  from a b c c' create_exit_1_iff [of L X G args w w'] create_exit_0_iff [of L X G args w w']
  show ?thesis by blast
qed

lemma demo_parse:
  "parse_har_file py_json no_raise world0 ''trace.har'' = Some (Inr (parse py_json []))"
  by (simp add: parse_har_file_def load_def read_text_def json_load_def typed_entries_def
      world0_def py_json_def py_def no_raise_def)

lemma demo_name: "override_name (demo_args f) si = si\<lparr>s_name := ''demo''\<rparr>"
  by (simp add: override_name_def demo_args_def startswith_def)

lemma demo_out: "output_dir_of gen0 (demo_args f) = ''/out''"
  by (simp add: output_dir_of_def demo_args_def gen0_def startswith_def)

lemma demo_env:
  "env_example ((parse py_json [])\<lparr>s_name := ''demo''\<rparr>)
   = join_nl [''# iblai-demo Configuration'',
       ''# Copy this file to .env and update with your values'',
       [],
       ''# Base URL (optional, defaults to discovered URL)'',
       ''# DEMO_BASE_URL='',
       [],
       ''# No authentication was detected in the API calls.'',
       ''# This API appears to be public.'',
       []]"
  by code_simp

theorem create_exit_codes_witness:
  "read_text world0 (har_file (demo_args ''missing.har'')) = Inl FileNotFoundError
   \<and> create_command py_json no_raise gen0 (demo_args ''missing.har'') world0
       = Some (Exit 1, world0)
   \<and> read_text world0 (har_file (demo_args ''bad.har'')) = Inr ''{not json''
   \<and> json_loads py_json ''{not json'' = None
   \<and> create_command py_json no_raise gen0 (demo_args ''bad.har'') world0
       = Some (Exit 1, world0)
   \<and> read_text world0 (har_file (demo_args ''traces'')) = Inl IsADirectoryError
   \<and> parse_har_file py_json no_raise world0 (har_file (demo_args ''traces''))
       = Some (Inl IsADirectoryError)
   \<and> create_command py_json no_raise gen0 (demo_args ''traces'') world0
       = Some (Uncaught IsADirectoryError, world0)
   \<and> parse_har_file py_json no_raise world0 (har_file (demo_args ''trace.har''))
       = Some (Inr (parse py_json []))
   \<and> (\<exists>w'. create_command py_json no_raise gen0 (demo_args ''trace.har'') world0
               = Some (Exit 0, w') \<and>
             files w' ''/out/iblai-demo/.env.example''
               = Some (join_nl [''# iblai-demo Configuration'',
                    ''# Copy this file to .env and update with your values'',
                    [],
                    ''# Base URL (optional, defaults to discovered URL)'',
                    ''# DEMO_BASE_URL='',
                    [],
                    ''# No authentication was detected in the API calls.'',
                    ''# This API appears to be public.'',
                    []]))"
proof -
  have m: "read_text world0 (har_file (demo_args ''missing.har'')) = Inl FileNotFoundError"
    by (simp add: read_text_def world0_def demo_args_def)
  have b: "read_text world0 (har_file (demo_args ''bad.har'')) = Inr ''{not json''
           \<and> loads_raises no_raise ''{not json'' = None
           \<and> json_loads py_json ''{not json'' = None"
    by (simp add: read_text_def world0_def demo_args_def py_json_def py_def no_raise_def)
  have ru: "read_text world0 (har_file (demo_args ''traces'')) = Inl IsADirectoryError"
    by (simp add: read_text_def world0_def demo_args_def)
  have u: "parse_har_file py_json no_raise world0 (har_file (demo_args ''traces''))
           = Some (Inl IsADirectoryError)"
    by (simp add: parse_har_file_def load_def read_text_def world0_def demo_args_def)
  have t: "parse_har_file py_json no_raise world0 (har_file (demo_args ''trace.har''))
           = Some (Inr (parse py_json []))"
    using demo_parse by (simp add: demo_args_def)
  have cw: "\<forall>p. can_write world0 p" by (simp add: world0_def)
  have path: "path_join (path_join (output_dir_of gen0 (demo_args ''trace.har''))
        (server_name ((parse py_json [])\<lparr>s_name := ''demo''\<rparr>)))
        ''.env.example'' = ''/out/iblai-demo/.env.example''"
    by (simp add: demo_out server_name_def path_join_def startswith_def endswith_def)
  note c1 = create_exit_codes [where L = py_json and X = no_raise and G = gen0 and w = world0
      and args = "demo_args ''missing.har''"]
  note c2 = create_exit_codes [where L = py_json and X = no_raise and G = gen0 and w = world0
      and args = "demo_args ''bad.har''" and content = "''{not json''"]
  note c4 = create_exit_codes [where L = py_json and X = no_raise and G = gen0 and w = world0
      and args = "demo_args ''traces''" and e = IsADirectoryError]
  from c1 m have r1: "create_command py_json no_raise gen0 (demo_args ''missing.har'') world0
      = Some (Exit 1, world0)"
    by blast
  from c2 b have r2: "create_command py_json no_raise gen0 (demo_args ''bad.har'') world0
      = Some (Exit 1, world0)"
    by blast
  from c4 ru u have r4: "create_command py_json no_raise gen0 (demo_args ''traces'') world0
      = Some (Uncaught IsADirectoryError, world0)"
    by simp
  from create_succeeds_when_writable [OF t cw, of gen0]
  obtain w' where
    g: "generate_mcp_server gen0 (override_name (demo_args ''trace.har'') (parse py_json []))
          (output_dir_of gen0 (demo_args ''trace.har'')) world0
        = (Inr (path_join (output_dir_of gen0 (demo_args ''trace.har''))
                  (server_name (override_name (demo_args ''trace.har'') (parse py_json [])))),
           w')"
    and f: "files w' (path_join (path_join (output_dir_of gen0 (demo_args ''trace.har''))
        (server_name (override_name (demo_args ''trace.har'') (parse py_json []))))
        ''.env.example'')
        = Some (env_example (override_name (demo_args ''trace.har'') (parse py_json [])))"
    by blast
  note c3 = create_exit_codes [where L = py_json and X = no_raise and G = gen0 and w = world0
      and args = "demo_args ''trace.har''" and w' = w']
  from c3 t g have "create_command py_json no_raise gen0 (demo_args ''trace.har'') world0
      = Some (Exit 0, w')"
    by blast
  with f have "\<exists>w'. create_command py_json no_raise gen0 (demo_args ''trace.har'') world0
        = Some (Exit 0, w') \<and>
      files w' (path_join (path_join (output_dir_of gen0 (demo_args ''trace.har''))
        (server_name (override_name (demo_args ''trace.har'') (parse py_json []))))
        ''.env.example'')
        = Some (env_example (override_name (demo_args ''trace.har'') (parse py_json [])))"
    by blast
  then have r3: "\<exists>w'. create_command py_json no_raise gen0 (demo_args ''trace.har'') world0
        = Some (Exit 0, w') \<and>
      files w' ''/out/iblai-demo/.env.example''
        = Some (join_nl [''# iblai-demo Configuration'',
                    ''# Copy this file to .env and update with your values'',
                    [],
                    ''# Base URL (optional, defaults to discovered URL)'',
                    ''# DEMO_BASE_URL='',
                    [],
                    ''# No authentication was detected in the API calls.'',
                    ''# This API appears to be public.'',
                    []])"
    unfolding demo_name path demo_env .
  from m b ru u t r1 r2 r3 r4 show ?thesis by blast
qed

text \<open>
  Exit code 1 with nothing written is not the mark of a missing or malformed trace: with an
  empty trace that is there and is JSON, and an output directory that cannot be created, the
  generator raises at its first step, and \<open>create\<close> returns 1 and has written nothing.
\<close>

theorem exit_1_with_nothing_written_on_valid_trace:
  "read_text (read_only world0) (har_file (demo_args ''trace.har'')) = Inr ''{}''
   \<and> json_loads py_json ''{}'' = Some (JObj [])
   \<and> parse_har_file py_json no_raise (read_only world0) (har_file (demo_args ''trace.har''))
       = Some (Inr (parse py_json []))
   \<and> create_command py_json no_raise gen0 (demo_args ''trace.har'') (read_only world0)
       = Some (Exit 1, read_only world0)"
proof -
  have r: "read_text (read_only world0) (har_file (demo_args ''trace.har'')) = Inr ''{}''"
    by (simp add: read_text_def read_only_def world0_def demo_args_def)
  have j: "json_loads py_json ''{}'' = Some (JObj [])"
    by (simp add: py_json_def py_def)
  have p: "parse_har_file py_json no_raise (read_only world0) (har_file (demo_args ''trace.har''))
       = Some (Inr (parse py_json []))"
    by (simp add: parse_har_file_def load_def read_text_def json_load_def typed_entries_def
        read_only_def world0_def py_json_def py_def no_raise_def demo_args_def)
  have g: "generate_mcp_server gen0 (override_name (demo_args ''trace.har'') (parse py_json []))
        (output_dir_of gen0 (demo_args ''trace.har'')) (read_only world0)
      = (Inl OSError, read_only world0)"
    by (simp add: generate_mcp_server_def generate_def Let_def io_then_def makedirs_def
        read_only_def)
  from p g have "create_command py_json no_raise gen0 (demo_args ''trace.har'') (read_only world0)
       = Some (Exit 1, read_only world0)"
    by (simp add: create_on_service_info)
  with r j p show ?thesis by blast
qed

end
